theory Spec2Isabelle
  imports Main "HOL-Library.Sublist"
begin

section \<open>Data model\<close>

text \<open>
  The chat store of \<^verbatim>\<open>src/ProChat/store/action.ts\<close>. A \<^verbatim>\<open>ChatMessage\<close> is a record with
  the fields the actions read or write (the time stamps and the avatar meta data play no
  part in any action and are left out). An absent \<^verbatim>\<open>parentId\<close> or \<^verbatim>\<open>error\<close> is \<open>None\<close>.
\<close>

datatype role = User | Assistant | System | FunctionRole

type_synonym chat_error = string

record chat_message =
  msg_id :: string
  role :: role
  content :: string
  parentId :: "string option"
  extra :: "(string \<times> string) list"
  error :: "chat_error option"

text \<open>
  \<^verbatim>\<open>MessageDispatch\<close>, the tagged commands handed to \<^verbatim>\<open>dispatchMessage\<close>. The pair
  \<^verbatim>\<open>key\<close>/\<^verbatim>\<open>value\<close> of \<^verbatim>\<open>updateMessage\<close> is one value of \<open>field_update\<close>: the actions only
  ever write \<^verbatim>\<open>content\<close> (a string) and \<^verbatim>\<open>error\<close> (a descriptor). The id of an
  \<^verbatim>\<open>updateMessage\<close> is optional because \<^verbatim>\<open>stopGenerateMessage\<close> passes \<^verbatim>\<open>chatLoadingId\<close>,
  which is \<^verbatim>\<open>undefined\<close> when nothing is loading.
\<close>

datatype field_update = Content string | Error chat_error

datatype messageDispatch =
    AddMessage string string role "string option"
  | DeleteMessage string
  | UpdateMessage "string option" field_update
  | UpdateMessageExtra string string string
  | ResetMessages

record chat_config =
  inputTemplate :: string
  systemRole :: string
  model :: string

text \<open>
  The store. The first five fields are the fields of the zustand store the actions use.
  The others make the environment explicit:
  \<^item> \<open>signals\<close> is the heap of \<^verbatim>\<open>AbortController\<close> objects: \<^verbatim>\<open>new AbortController()\<close>
    allocates the next index with the flag \<open>False\<close>, \<^verbatim>\<open>abort()\<close> sets the flag, and
    \<^verbatim>\<open>signal.aborted\<close> reads it. A handle is an index into this list;
  \<^item> \<open>nanoidCount\<close> counts the calls of \<^verbatim>\<open>nanoid()\<close>, so that each call gives the next id;
  \<^item> \<open>dispatched\<close> is the history of the commands passed to \<^verbatim>\<open>dispatchMessage\<close>, in
    call order;
  \<^item> \<open>requested\<close> is the history of the message lists sent to the model fetcher.
  The two histories are never read by an action.
\<close>

record chat_store =
  chats :: "chat_message list"
  abortController :: "nat option"
  chatLoadingId :: "string option"
  config :: chat_config
  genMessageId :: "(chat_message list \<Rightarrow> string \<Rightarrow> string) option"
  signals :: "bool list"
  nanoidCount :: nat
  dispatched :: "messageDispatch list"
  requested :: "chat_message list list"

text \<open>
  What \<^verbatim>\<open>action.ts\<close> imports from files that are not part of the sources at hand, taken
  as parameters: the sentinel \<^verbatim>\<open>LOADING_FLAT\<close>, the id generator \<^verbatim>\<open>nanoid\<close> (as the
  function from the number of earlier calls to the id), \<^verbatim>\<open>isFunctionMessage\<close>,
  \<^verbatim>\<open>getSlicedMessagesWithConfig\<close>, and lodash's \<^verbatim>\<open>template\<close>. \<open>template d tpl\<close> is the
  result of compiling the template string \<open>tpl\<close>: \<open>None\<close> when the compilation throws (a
  template that is not well formed), otherwise the compiler, which maps the text of
  \<^verbatim>\<open>{ text }\<close> to the substituted string, or to \<open>None\<close> when the application throws.
\<close>

record deps =
  LOADING_FLAT :: string
  nanoid :: "nat \<Rightarrow> string"
  isFunctionMessage :: "string \<Rightarrow> bool"
  getSlicedMessagesWithConfig :: "chat_message list \<Rightarrow> chat_config \<Rightarrow> chat_message list"
  template :: "string \<Rightarrow> (string \<Rightarrow> string option) option"

section \<open>The message reducer\<close>

text \<open>
  The list operations the reducer below is built from: changing or removing the first
  element that satisfies a test (the list is returned as it is when none does),
  writing one field of a message, and setting one key of an \<^verbatim>\<open>extra\<close> mapping.
\<close>

fun updateFirst :: "('a \<Rightarrow> bool) \<Rightarrow> ('a \<Rightarrow> 'a) \<Rightarrow> 'a list \<Rightarrow> 'a list" where
  "updateFirst P f [] = []"
| "updateFirst P f (x # xs) = (if P x then f x # xs else x # updateFirst P f xs)"

fun deleteFirst :: "('a \<Rightarrow> bool) \<Rightarrow> 'a list \<Rightarrow> 'a list" where
  "deleteFirst P [] = []"
| "deleteFirst P (x # xs) = (if P x then xs else x # deleteFirst P xs)"

fun applyUpdate :: "field_update \<Rightarrow> chat_message \<Rightarrow> chat_message" where
  "applyUpdate (Content t) m = m\<lparr>content := t\<rparr>"
| "applyUpdate (Error e) m = m\<lparr>error := Some e\<rparr>"

fun mergeExtra :: "string \<Rightarrow> string \<Rightarrow> (string \<times> string) list \<Rightarrow> (string \<times> string) list" where
  "mergeExtra k v [] = [(k, v)]"
| "mergeExtra k v (p # ps) = (if fst p = k then (k, v) # ps else p # mergeExtra k v ps)"

text \<open>
  Modelled from the spec: \<^verbatim>\<open>messagesReducer\<close> (\<^verbatim>\<open>./reducers/message\<close>) is not among the
  sources. Section 4.1 of the specification: \<^verbatim>\<open>addMessage\<close> appends a new message built
  from the command's role, content, parentId and id; \<^verbatim>\<open>deleteMessage\<close> removes the
  message with that id; \<^verbatim>\<open>updateMessage\<close> replaces the named field on the message with
  that id; \<^verbatim>\<open>updateMessageExtra\<close> merges one key into that message's \<^verbatim>\<open>extra\<close>; each of
  the three is the identity when no message has the id; \<^verbatim>\<open>resetMessages\<close> gives the
  empty sequence. "The message with that id" is the first one in sequence order, as
  with every \<^verbatim>\<open>findIndex\<close> of \<^verbatim>\<open>action.ts\<close>; an \<^verbatim>\<open>undefined\<close> id matches no message.
\<close>

fun messagesReducer :: "chat_message list \<Rightarrow> messageDispatch \<Rightarrow> chat_message list" where
  "messagesReducer state (AddMessage i message r p) =
     state @ [\<lparr>msg_id = i, role = r, content = message, parentId = p, extra = [], error = None\<rparr>]"
| "messagesReducer state (DeleteMessage i) = deleteFirst (\<lambda>m. msg_id m = i) state"
| "messagesReducer state (UpdateMessage None u) = state"
| "messagesReducer state (UpdateMessage (Some i) u) =
     updateFirst (\<lambda>m. msg_id m = i) (applyUpdate u) state"
| "messagesReducer state (UpdateMessageExtra i k v) =
     updateFirst (\<lambda>m. msg_id m = i) (\<lambda>m. m\<lparr>extra := mergeExtra k v (extra m)\<rparr>) state"
| "messagesReducer state ResetMessages = []"

section \<open>The actions of the store\<close>

text \<open>
  \<^verbatim>\<open>dispatchMessage\<close>: the next chats are the reducer's result. The optional observer
  \<^verbatim>\<open>onChatsChange\<close> is outside the store and is not modelled.
\<close>

definition dispatchMessage :: "messageDispatch \<Rightarrow> chat_store \<Rightarrow> chat_store" where
  "dispatchMessage payload s =
     s\<lparr>chats := messagesReducer (chats s) payload, dispatched := dispatched s @ [payload]\<rparr>"

definition deleteMessage :: "string \<Rightarrow> chat_store \<Rightarrow> chat_store" where
  "deleteMessage i s = dispatchMessage (DeleteMessage i) s"

text \<open>
  \<^verbatim>\<open>toggleChatLoading(loading, id)\<close> returns the new controller when \<^verbatim>\<open>loading\<close> holds and
  \<^verbatim>\<open>undefined\<close> otherwise.
\<close>

definition toggleChatLoading ::
  "bool \<Rightarrow> string option \<Rightarrow> chat_store \<Rightarrow> nat option \<times> chat_store" where
  "toggleChatLoading loading i s =
     (if loading then
        (let abortController' = length (signals s) in
         (Some abortController',
          s\<lparr>abortController := Some abortController', chatLoadingId := i,
            signals := signals s @ [False]\<rparr>))
      else (None, s\<lparr>abortController := None, chatLoadingId := None\<rparr>))"

definition abort :: "nat \<Rightarrow> chat_store \<Rightarrow> chat_store" where
  "abort h s = s\<lparr>signals := (signals s)[h := True]\<rparr>"

definition aborted :: "chat_store \<Rightarrow> nat \<Rightarrow> bool" where
  "aborted s h = (h < length (signals s) \<and> signals s ! h)"

text \<open>
  \<^verbatim>\<open>stopGenerateMessage\<close>. The update is addressed to \<^verbatim>\<open>chatLoadingId\<close>; the test is on
  the content of the last chat.
\<close>

definition stopGenerateMessage :: "deps \<Rightarrow> chat_store \<Rightarrow> chat_store" where
  "stopGenerateMessage d s =
     (let s1 = (if chats s \<noteq> [] \<and> content (last (chats s)) = LOADING_FLAT d
                then dispatchMessage (UpdateMessage (chatLoadingId s) (Content [])) s
                else s)
      in case abortController s of
           None \<Rightarrow> s1
         | Some h \<Rightarrow> snd (toggleChatLoading False None (abort h s1)))"

section \<open>Generation\<close>

text \<open>
  Context preprocessing of \<^verbatim>\<open>generateMessage\<close>. The local function
  \<^verbatim>\<open>compilerMessages\<close> first compiles the template, outside any \<^verbatim>\<open>try\<close> block, so that a
  throwing compilation leaves the function (\<open>None\<close>); it then maps over the messages,
  and there the application of the compiler to a user message is inside
  \<^verbatim>\<open>try\<close>/\<^verbatim>\<open>catch\<close>, which returns the message as it is.
\<close>

definition compilerMessages ::
  "deps \<Rightarrow> chat_config \<Rightarrow> chat_message list \<Rightarrow> chat_message list option" where
  "compilerMessages d cfg slicedMessages =
     (case template d (inputTemplate cfg) of
        None \<Rightarrow> None
      | Some compiler \<Rightarrow>
          Some (map (\<lambda>m. if role m = User then
                             (case compiler (content m) of
                                Some t \<Rightarrow> m\<lparr>content := t\<rparr>
                              | None \<Rightarrow> m)
                           else m) slicedMessages))"

text \<open>
  The messages of the request: \<^verbatim>\<open>!config.inputTemplate\<close> holds for the empty (or
  missing) template, \<^verbatim>\<open>config.systemRole\<close> is tested the same way, and the synthetic
  system message has no id. \<open>None\<close>: the preprocessing has thrown.
\<close>

definition postMessages ::
  "deps \<Rightarrow> chat_config \<Rightarrow> chat_message list \<Rightarrow> chat_message list option" where
  "postMessages d cfg messages =
     (let slicedMessages = getSlicedMessagesWithConfig d messages cfg in
      case (if inputTemplate cfg = [] then Some slicedMessages
            else compilerMessages d cfg slicedMessages) of
        None \<Rightarrow> None
      | Some compiled \<Rightarrow>
          Some (if systemRole cfg \<noteq> []
                then \<lparr>msg_id = [], role = System, content = systemRole cfg, parentId = None,
                      extra = [], error = None\<rparr> # compiled
                else compiled))"

text \<open>
  \<^verbatim>\<open>defaultModelFetcher\<close> sends the payload to the configured request function or URL;
  the model keeps the messages of the payload in the history \<open>requested\<close>.
\<close>

definition defaultModelFetcher :: "chat_message list \<Rightarrow> chat_store \<Rightarrow> chat_store" where
  "defaultModelFetcher payload s = s\<lparr>requested := requested s @ [payload]\<rparr>"

text \<open>
  The variables \<^verbatim>\<open>output\<close> (here \<open>output_v\<close>) and \<^verbatim>\<open>isFunctionCall\<close> that the two
  callbacks of \<^verbatim>\<open>generateMessage\<close> close over.
\<close>

record gen_vars =
  output_v :: string
  isFunctionCall :: bool

definition onErrorHandle :: "string \<Rightarrow> chat_error \<Rightarrow> chat_store \<Rightarrow> chat_store" where
  "onErrorHandle assistantId e s = dispatchMessage (UpdateMessage (Some assistantId) (Error e)) s"

definition onMessageHandle ::
  "deps \<Rightarrow> string \<Rightarrow> nat \<Rightarrow> string \<Rightarrow> gen_vars \<times> chat_store \<Rightarrow> gen_vars \<times> chat_store" where
  "onMessageHandle d assistantId abortController' text vs =
     (case vs of (v, s) \<Rightarrow>
        (let v1 = v\<lparr>output_v := output_v v @ text\<rparr> in
         if \<not> aborted s abortController' then
           (let s1 = dispatchMessage (UpdateMessage (Some assistantId) (Content (output_v v1))) s
            in (if isFunctionMessage d (output_v v1) then v1\<lparr>isFunctionCall := True\<rparr> else v1, s1))
         else (v1, s)))"

text \<open>
  What the stream consumer observes, in order: a decoded chunk, a failure of the
  transport or of the decoder, the regular end of the stream, and the firing of the
  cancellation signal handed to the fetcher (\<^verbatim>\<open>abort()\<close> called on the controller, which
  in this repository \<^verbatim>\<open>stopGenerateMessage\<close> does).
\<close>

datatype sse_event = Chunk string | Failure chat_error | Closed | Aborted

text \<open>
  Modelled from the spec: \<^verbatim>\<open>fetchSSE\<close> (\<^verbatim>\<open>utils/fetch\<close>) is not among the sources.
  Section 4.2 of the specification: the consumer invokes the chunk callback for each
  decoded increment in receipt order, and the error callback at most once, terminal,
  when the operation rejects, signals failure mid-stream or cannot be decoded. The list
  of events is the history of the stream so far; the first component of the result
  tells whether the consumer has returned (\<open>False\<close>: it still awaits the next frame).
  The specification lets the consumer stop emitting once the signal has fired; the
  model does not rely on that and hands every later chunk to the callback, so histories
  of a consumer that stops are the lists with nothing but \<open>Closed\<close> after \<open>Aborted\<close>.
\<close>

fun consume ::
  "(chat_error \<Rightarrow> chat_store \<Rightarrow> chat_store) \<Rightarrow>
   (string \<Rightarrow> gen_vars \<times> chat_store \<Rightarrow> gen_vars \<times> chat_store) \<Rightarrow> nat \<Rightarrow>
   sse_event list \<Rightarrow> gen_vars \<times> chat_store \<Rightarrow> bool \<times> gen_vars \<times> chat_store" where
  "consume onError onMessage sig [] vs = (False, vs)"
| "consume onError onMessage sig (Chunk text # es) vs =
     consume onError onMessage sig es (onMessage text vs)"
| "consume onError onMessage sig (Failure e # es) vs = (True, fst vs, onError e (snd vs))"
| "consume onError onMessage sig (Closed # es) vs = (True, vs)"
| "consume onError onMessage sig (Aborted # es) vs =
     consume onError onMessage sig es (fst vs, abort sig (snd vs))"

text \<open>
  Modelled from the spec: \<^verbatim>\<open>fetchSSE\<close> first calls the operation it is given (the
  fetcher, which issues the request) and then consumes the response as above.
\<close>

definition fetchSSE ::
  "(chat_store \<Rightarrow> chat_store) \<Rightarrow> (chat_error \<Rightarrow> chat_store \<Rightarrow> chat_store) \<Rightarrow>
   (string \<Rightarrow> gen_vars \<times> chat_store \<Rightarrow> gen_vars \<times> chat_store) \<Rightarrow> nat \<Rightarrow>
   sse_event list \<Rightarrow> gen_vars \<times> chat_store \<Rightarrow> bool \<times> gen_vars \<times> chat_store" where
  "fetchSSE fetcher onError onMessage sig es vs =
     consume onError onMessage sig es (fst vs, fetcher (snd vs))"

text \<open>
  \<^verbatim>\<open>generateMessage\<close>. \<open>Pending\<close>: the call is suspended in \<^verbatim>\<open>await fetchSSE\<close>;
  \<open>Returned b\<close>: it has returned \<^verbatim>\<open>{ isFunctionCall: b }\<close>; \<open>Threw\<close>: it has thrown (its
  promise is rejected). It throws when the preprocessing throws, which is after
  \<^verbatim>\<open>toggleChatLoading(true, ...)\<close> and before the fetcher is built, and there is no
  handler that would clear the loading state. \<^verbatim>\<open>toggleChatLoading(true, ...)\<close> always
  returns a controller; the first \<open>Threw\<close> stands for the read of \<^verbatim>\<open>.signal\<close> on
  \<^verbatim>\<open>undefined\<close> otherwise.
\<close>

datatype gen_result = Pending | Returned bool | Threw

definition generateMessage ::
  "deps \<Rightarrow> chat_message list \<Rightarrow> string \<Rightarrow> sse_event list \<Rightarrow> chat_store \<Rightarrow>
   gen_result \<times> chat_store" where
  "generateMessage d messages assistantId es s =
     (case toggleChatLoading True (Some assistantId) s of
        (None, s1) \<Rightarrow> (Threw, s1)
      | (Some abortController', s1) \<Rightarrow>
          (case postMessages d (config s) messages of
             None \<Rightarrow> (Threw, s1)
           | Some payload \<Rightarrow>
               (case fetchSSE (defaultModelFetcher payload)
                       (onErrorHandle assistantId)
                       (onMessageHandle d assistantId abortController')
                       abortController' es
                       (\<lparr>output_v = [], isFunctionCall = False\<rparr>, s1) of
                  (finished, v, s2) \<Rightarrow>
                    if finished
                    then (Returned (isFunctionCall v), snd (toggleChatLoading False None s2))
                    else (Pending, s2))))"

section \<open>Sending and resending\<close>

definition getMessageId ::
  "deps \<Rightarrow> chat_message list \<Rightarrow> string \<Rightarrow> chat_store \<Rightarrow> string \<times> chat_store" where
  "getMessageId d messages parent s =
     (case genMessageId s of
        Some g \<Rightarrow> (g messages parent, s)
      | None \<Rightarrow> (nanoid d (nanoidCount s), s\<lparr>nanoidCount := Suc (nanoidCount s)\<rparr>))"

text \<open>
  \<^verbatim>\<open>realFetchAIResponse\<close> suspends once before it generates, in
  \<^verbatim>\<open>await getMessageId(...)\<close>. \<open>realFetchAIResponse_resume\<close> is the rest of its body,
  from the id \<open>mid\<close> on.
\<close>

definition realFetchAIResponse_resume ::
  "deps \<Rightarrow> chat_message list \<Rightarrow> string \<Rightarrow> string \<Rightarrow> sse_event list \<Rightarrow> chat_store \<Rightarrow>
   chat_store" where
  "realFetchAIResponse_resume d messages userMessageId mid es s =
     (let s1 = dispatchMessage
                 (AddMessage mid (LOADING_FLAT d) Assistant (Some userMessageId)) s;
          s2 = dispatchMessage (UpdateMessageExtra mid ''fromModel'' (model (config s))) s1
      in snd (generateMessage d messages mid es s2))"

definition realFetchAIResponse ::
  "deps \<Rightarrow> chat_message list \<Rightarrow> string \<Rightarrow> sse_event list \<Rightarrow> chat_store \<Rightarrow> chat_store" where
  "realFetchAIResponse d messages userMessageId es s =
     (case getMessageId d messages userMessageId s of
        (mid, s1) \<Rightarrow> realFetchAIResponse_resume d messages userMessageId mid es s1)"

text \<open>
  Modelled from the spec: \<^verbatim>\<open>chatSelectors.currentChats\<close> (\<^verbatim>\<open>./selectors\<close>) is not among
  the sources. Section 4.4: the full in-order context, all current messages.
\<close>

definition currentChats :: "chat_store \<Rightarrow> chat_message list" where
  "currentChats s = chats s"

definition sendMessage :: "deps \<Rightarrow> string \<Rightarrow> sse_event list \<Rightarrow> chat_store \<Rightarrow> chat_store" where
  "sendMessage d message es s =
     (if message = [] then s
      else
        (let userId = nanoid d (nanoidCount s);
             s1 = s\<lparr>nanoidCount := Suc (nanoidCount s)\<rparr>;
             s2 = dispatchMessage (AddMessage userId message User None) s1;
             messages = currentChats s2
         in realFetchAIResponse d messages userId es s2))"

text \<open>\<^verbatim>\<open>Array.prototype.findIndex\<close>: the first index that satisfies the test, or -1.\<close>

fun findIndex :: "('a \<Rightarrow> bool) \<Rightarrow> 'a list \<Rightarrow> int" where
  "findIndex P [] = - 1"
| "findIndex P (x # xs) =
     (if P x then 0 else (let i = findIndex P xs in if i < 0 then - 1 else i + 1))"

text \<open>\<^verbatim>\<open>xs.slice(0, end)\<close>; a negative \<^verbatim>\<open>end\<close> counts from the end of the array.\<close>

definition slice0 :: "'a list \<Rightarrow> int \<Rightarrow> 'a list" where
  "slice0 xs e = (if e < 0 then take (nat (int (length xs) + e)) xs else take (nat e) xs)"

text \<open>
  The \<^verbatim>\<open>switch\<close> of \<^verbatim>\<open>resendMessage\<close> that fills \<^verbatim>\<open>contextMessages\<close>, for a
  \<open>currentIndex\<close> that \<^verbatim>\<open>findIndex\<close> has found. A \<^verbatim>\<open>system\<close> message matches no case and
  leaves the initial empty array.
\<close>

definition contextMessages :: "chat_message list \<Rightarrow> int \<Rightarrow> chat_message list" where
  "contextMessages chs currentIndex =
     (let currentMessage = chs ! nat currentIndex in
      case role currentMessage of
        FunctionRole \<Rightarrow> slice0 chs (currentIndex + 1)
      | User \<Rightarrow> slice0 chs (currentIndex + 1)
      | Assistant \<Rightarrow>
          (let userId = parentId currentMessage;
               userIndex = findIndex (\<lambda>c. Some (msg_id c) = userId) chs
           in slice0 chs (if userIndex < 0 then currentIndex + 1 else userIndex + 1))
      | System \<Rightarrow> [])"

text \<open>
  The part of \<^verbatim>\<open>resendMessage\<close> before its only \<^verbatim>\<open>await\<close>: \<open>None\<close> when it returns early,
  otherwise the two arguments of the call of \<^verbatim>\<open>realFetchAIResponse\<close>.
\<close>

definition resendMessage_args :: "string \<Rightarrow> chat_store \<Rightarrow> (chat_message list \<times> string) option" where
  "resendMessage_args messageId s =
     (let chs = currentChats s;
          currentIndex = findIndex (\<lambda>c. msg_id c = messageId) chs
      in if currentIndex < 0 then None
         else
           (let ctx = contextMessages chs currentIndex in
            if length ctx \<le> 0 then None
            else (case rev (filter (\<lambda>m. role m = User) ctx) of
                    [] \<Rightarrow> None
                  | latestMsg # _ \<Rightarrow> Some (ctx, msg_id latestMsg))))"

definition resendMessage :: "deps \<Rightarrow> string \<Rightarrow> sse_event list \<Rightarrow> chat_store \<Rightarrow> chat_store" where
  "resendMessage d messageId es s =
     (case resendMessage_args messageId s of
        None \<Rightarrow> s
      | Some (ctx, latestId) \<Rightarrow> realFetchAIResponse d ctx latestId es s)"

text \<open>
  \<^verbatim>\<open>onActionsClick\<close> of the message list. \<^verbatim>\<open>resendMessage(id)\<close> is called without
  \<^verbatim>\<open>await\<close>: it runs up to the first suspension, which is \<^verbatim>\<open>await getMessageId(...)\<close>
  inside \<^verbatim>\<open>realFetchAIResponse\<close> (the body of \<^verbatim>\<open>getMessageId\<close> itself has run by then);
  the handler then goes on with \<^verbatim>\<open>if (error) deleteMessage(id)\<close>, and the suspended call
  resumes only after the handler has returned.
\<close>

datatype action_key = Del | Regenerate

definition onActionsClick ::
  "deps \<Rightarrow> action_key \<Rightarrow> string \<Rightarrow> chat_error option \<Rightarrow> sse_event list \<Rightarrow> chat_store \<Rightarrow>
   chat_store" where
  "onActionsClick d key i err es s =
     (case key of
        Del \<Rightarrow> deleteMessage i s
      | Regenerate \<Rightarrow>
          (case resendMessage_args i s of
             None \<Rightarrow> (if err \<noteq> None then deleteMessage i s else s)
           | Some (ctx, latestId) \<Rightarrow>
               (case getMessageId d ctx latestId s of
                  (mid, s1) \<Rightarrow>
                    realFetchAIResponse_resume d ctx latestId mid es
                      (if err \<noteq> None then deleteMessage i s1 else s1))))"

section \<open>Auxiliary notions for the statements\<close>

text \<open>The stream loop of one generation, with the two callbacks of \<open>generateMessage\<close>.\<close>

abbreviation stream ::
  "deps \<Rightarrow> string \<Rightarrow> nat \<Rightarrow> sse_event list \<Rightarrow> gen_vars \<times> chat_store \<Rightarrow>
   bool \<times> gen_vars \<times> chat_store" where
  "stream d a h es vs \<equiv> consume (onErrorHandle a) (onMessageHandle d a h) h es vs"

text \<open>
  A concrete environment and the idle, empty store, for the examples: the sentinel is
  three dots, the n-th id drawn from \<^verbatim>\<open>nanoid\<close> is a run of n + 1 letters i, no history
  window applies, the template \<^verbatim>\<open>{{ text + }}\<close> (an interpolation that is not an
  expression) does not compile, and every other template is prepended to the text but
  throws on the text \<^verbatim>\<open>bad\<close>.
\<close>

definition demo_deps :: deps where
  "demo_deps =
     \<lparr>LOADING_FLAT = ''...'', nanoid = (\<lambda>n. replicate (Suc n) CHR ''i''),
      isFunctionMessage = (\<lambda>t. False), getSlicedMessagesWithConfig = (\<lambda>ms cfg. ms),
      template = (\<lambda>tpl. if tpl = ''{{ text + }}'' then None
                       else Some (\<lambda>text. if text = ''bad'' then None else Some (tpl @ text)))\<rparr>"

definition idle_store :: chat_store where
  "idle_store =
     \<lparr>chats = [], abortController = None, chatLoadingId = None,
      config = \<lparr>inputTemplate = [], systemRole = [], model = ''gpt''\<rparr>,
      genMessageId = None, signals = [], nanoidCount = 0, dispatched = [], requested = []\<rparr>"

text \<open>
  The content values that a history of commands sets on the message \<open>a\<close> with
  \<^verbatim>\<open>updateMessage\<close>, key \<^verbatim>\<open>content\<close>, in dispatch order.
\<close>

fun contentValue :: "string \<Rightarrow> messageDispatch \<Rightarrow> string list" where
  "contentValue a (UpdateMessage (Some i) (Content t)) = (if i = a then [t] else [])"
| "contentValue a p = []"

definition contentUpdates :: "string \<Rightarrow> messageDispatch list \<Rightarrow> string list" where
  "contentUpdates a tr = concat (map (contentValue a) tr)"

text \<open>The events after which the consumer returns.\<close>

fun terminal :: "sse_event \<Rightarrow> bool" where
  "terminal (Failure e) = True"
| "terminal Closed = True"
| "terminal ev = False"

text \<open>
  The store after \<^verbatim>\<open>hello\<close> has been sent and the placeholder of the reply created.
\<close>

definition loading_store :: chat_store where
  "loading_store =
     idle_store\<lparr>chats :=
       [\<lparr>msg_id = ''u1'', role = User, content = ''hello'', parentId = None, extra = [],
         error = None\<rparr>,
        \<lparr>msg_id = ''a1'', role = Assistant, content = ''...'', parentId = Some ''u1'',
         extra = [(''fromModel'', ''gpt'')], error = None\<rparr>]\<rparr>"

text \<open>
  A store in which the reply \<^verbatim>\<open>a1\<close> is being generated (controller 0, content \<^verbatim>\<open>Hel\<close> so
  far) and the last chat is a user message whose text is the three dots of the sentinel.
\<close>

definition interleaved_store :: chat_store where
  "interleaved_store =
     idle_store\<lparr>chats :=
       [\<lparr>msg_id = ''a1'', role = Assistant, content = ''Hel'', parentId = None, extra = [],
         error = None\<rparr>,
        \<lparr>msg_id = ''u2'', role = User, content = ''...'', parentId = None, extra = [],
         error = None\<rparr>],
       abortController := Some 0, chatLoadingId := Some ''a1'', signals := [False]\<rparr>"

text \<open>The fields of a message other than \<^verbatim>\<open>extra\<close>.\<close>

definition core ::
  "chat_message \<Rightarrow> string \<times> role \<times> string \<times> string option \<times> chat_error option" where
  "core m = (msg_id m, role m, content m, parentId m, error m)"

text \<open>The store after the reply \<^verbatim>\<open>a1\<close> has failed with the content \<^verbatim>\<open>Hel\<close>.\<close>

definition errored_store :: chat_store where
  "errored_store =
     idle_store\<lparr>chats :=
       [\<lparr>msg_id = ''u1'', role = User, content = ''hello'', parentId = None, extra = [],
         error = None\<rparr>,
        \<lparr>msg_id = ''a1'', role = Assistant, content = ''Hel'', parentId = Some ''u1'',
         extra = [(''fromModel'', ''gpt'')], error = Some ''boom''\<rparr>]\<rparr>"

text \<open>
  A store with an input template, and a context with a user message on which the
  template throws, an assistant message and a user message on which it succeeds.
\<close>

definition template_store :: chat_store where
  "template_store = idle_store\<lparr>config := \<lparr>inputTemplate = ''Q: '', systemRole = [], model = ''gpt''\<rparr>\<rparr>"

text \<open>A store whose input template does not compile.\<close>

definition broken_template_store :: chat_store where
  "broken_template_store =
     idle_store\<lparr>config := \<lparr>inputTemplate = ''{{ text + }}'', systemRole = [],
                                model = ''gpt''\<rparr>\<rparr>"

definition mixed_messages :: "chat_message list" where
  "mixed_messages =
     [\<lparr>msg_id = ''u1'', role = User, content = ''bad'', parentId = None, extra = [], error = None\<rparr>,
      \<lparr>msg_id = ''a1'', role = Assistant, content = ''ok'', parentId = Some ''u1'', extra = [],
        error = None\<rparr>,
      \<lparr>msg_id = ''u2'', role = User, content = ''hi'', parentId = None, extra = [], error = None\<rparr>]"

text \<open>
  The store in which a run of \<open>generateMessage\<close> awaits the stream, or in which it has
  thrown: the loading state is set and, unless the preprocessing has thrown, the
  request has been issued.
\<close>

definition entered :: "deps \<Rightarrow> chat_message list \<Rightarrow> string \<Rightarrow> chat_store \<Rightarrow> chat_store" where
  "entered d ms a s =
     (case postMessages d (config s) ms of
        None \<Rightarrow> snd (toggleChatLoading True (Some a) s)
      | Some payload \<Rightarrow> defaultModelFetcher payload (snd (toggleChatLoading True (Some a) s)))"

section \<open>Basic facts\<close>

lemma dispatchMessage_fields [simp]:
  "chats (dispatchMessage p s) = messagesReducer (chats s) p"
  "dispatched (dispatchMessage p s) = dispatched s @ [p]"
  "signals (dispatchMessage p s) = signals s"
  "abortController (dispatchMessage p s) = abortController s"
  "chatLoadingId (dispatchMessage p s) = chatLoadingId s"
  "config (dispatchMessage p s) = config s"
  "genMessageId (dispatchMessage p s) = genMessageId s"
  "nanoidCount (dispatchMessage p s) = nanoidCount s"
  "requested (dispatchMessage p s) = requested s"
  by (simp_all add: dispatchMessage_def)

lemma abort_fields [simp]:
  "chats (abort h s) = chats s"
  "dispatched (abort h s) = dispatched s"
  "signals (abort h s) = (signals s)[h := True]"
  "abortController (abort h s) = abortController s"
  "chatLoadingId (abort h s) = chatLoadingId s"
  "config (abort h s) = config s"
  "genMessageId (abort h s) = genMessageId s"
  "nanoidCount (abort h s) = nanoidCount s"
  "requested (abort h s) = requested s"
  by (simp_all add: abort_def)

lemma toggle_on_fields [simp]:
  "fst (toggleChatLoading True i s) = Some (length (signals s))"
  "chats (snd (toggleChatLoading True i s)) = chats s"
  "dispatched (snd (toggleChatLoading True i s)) = dispatched s"
  "signals (snd (toggleChatLoading True i s)) = signals s @ [False]"
  "abortController (snd (toggleChatLoading True i s)) = Some (length (signals s))"
  "chatLoadingId (snd (toggleChatLoading True i s)) = i"
  "config (snd (toggleChatLoading True i s)) = config s"
  "genMessageId (snd (toggleChatLoading True i s)) = genMessageId s"
  "nanoidCount (snd (toggleChatLoading True i s)) = nanoidCount s"
  "requested (snd (toggleChatLoading True i s)) = requested s"
  by (simp_all add: toggleChatLoading_def Let_def)

lemma toggle_off_fields [simp]:
  "fst (toggleChatLoading False i s) = None"
  "chats (snd (toggleChatLoading False i s)) = chats s"
  "dispatched (snd (toggleChatLoading False i s)) = dispatched s"
  "signals (snd (toggleChatLoading False i s)) = signals s"
  "abortController (snd (toggleChatLoading False i s)) = None"
  "chatLoadingId (snd (toggleChatLoading False i s)) = None"
  "config (snd (toggleChatLoading False i s)) = config s"
  "genMessageId (snd (toggleChatLoading False i s)) = genMessageId s"
  "nanoidCount (snd (toggleChatLoading False i s)) = nanoidCount s"
  "requested (snd (toggleChatLoading False i s)) = requested s"
  by (simp_all add: toggleChatLoading_def)

lemma defaultModelFetcher_fields [simp]:
  "chats (defaultModelFetcher p s) = chats s"
  "dispatched (defaultModelFetcher p s) = dispatched s"
  "signals (defaultModelFetcher p s) = signals s"
  "abortController (defaultModelFetcher p s) = abortController s"
  "chatLoadingId (defaultModelFetcher p s) = chatLoadingId s"
  "config (defaultModelFetcher p s) = config s"
  "genMessageId (defaultModelFetcher p s) = genMessageId s"
  "nanoidCount (defaultModelFetcher p s) = nanoidCount s"
  "requested (defaultModelFetcher p s) = requested s @ [p]"
  by (simp_all add: defaultModelFetcher_def)

lemma entered_fields [simp]:
  "chats (entered d ms a s) = chats s"
  "dispatched (entered d ms a s) = dispatched s"
  "signals (entered d ms a s) = signals s @ [False]"
  "abortController (entered d ms a s) = Some (length (signals s))"
  "chatLoadingId (entered d ms a s) = Some a"
  "config (entered d ms a s) = config s"
  "genMessageId (entered d ms a s) = genMessageId s"
  "nanoidCount (entered d ms a s) = nanoidCount s"
  "requested (entered d ms a s) =
     requested s @ (case postMessages d (config s) ms of None \<Rightarrow> [] | Some payload \<Rightarrow> [payload])"
  by (simp_all add: entered_def split: option.splits)

lemma generateMessage_unfold:
  "generateMessage d ms a es s =
     (if postMessages d (config s) ms = None then (Threw, entered d ms a s)
      else
        (let h = length (signals s);
             r = stream d a h es (\<lparr>output_v = [], isFunctionCall = False\<rparr>, entered d ms a s)
         in if fst r then (Returned (isFunctionCall (fst (snd r))),
                           snd (toggleChatLoading False None (snd (snd r))))
            else (Pending, snd (snd r))))"
  by (cases "postMessages d (config s) ms")
    (simp_all add: generateMessage_def fetchSSE_def toggleChatLoading_def entered_def Let_def
      split: prod.splits)

text \<open>
  The commands and the chats of a run are those of its stream loop; a run whose
  preprocessing has thrown has the loop of the empty history.
\<close>

lemma generateMessage_stream_fields:
  "dispatched (snd (generateMessage d ms a es s)) =
     dispatched (snd (snd (stream d a (length (signals s))
        (if postMessages d (config s) ms = None then [] else es)
        (\<lparr>output_v = [], isFunctionCall = False\<rparr>, entered d ms a s))))"
  "chats (snd (generateMessage d ms a es s)) =
     chats (snd (snd (stream d a (length (signals s))
        (if postMessages d (config s) ms = None then [] else es)
        (\<lparr>output_v = [], isFunctionCall = False\<rparr>, entered d ms a s))))"
  by (simp_all add: generateMessage_unfold Let_def)

lemma onMessageHandle_store:
  "snd (onMessageHandle d a h t (v, s)) =
     (if aborted s h then s
      else dispatchMessage (UpdateMessage (Some a) (Content (output_v v @ t))) s)"
  "output_v (fst (onMessageHandle d a h t (v, s))) = output_v v @ t"
  by (simp_all add: onMessageHandle_def Let_def)

lemma stream_signals:
  "length (signals (snd (snd (stream d a h es (v, s))))) = length (signals s) \<and>
   (\<forall>k. k \<noteq> h \<longrightarrow> signals (snd (snd (stream d a h es (v, s)))) ! k = signals s ! k)"
proof (induction es arbitrary: v s)
  case Nil
  show ?case by simp
next
  case (Cons e es)
  show ?case
  proof (cases e)
    case (Chunk t)
    obtain v' s' where st: "onMessageHandle d a h t (v, s) = (v', s')"
      by (cases "onMessageHandle d a h t (v, s)")
    have "signals s' = signals s"
      using onMessageHandle_store(1)[of d a h t v s] st by (simp split: if_splits)
    with Cons.IH[of v' s'] Chunk st show ?thesis by simp
  next
    case (Failure x)
    then show ?thesis by (simp add: onErrorHandle_def)
  next
    case Closed
    then show ?thesis by simp
  next
    case Aborted
    with Cons.IH[of v "abort h s"] show ?thesis by simp
  qed
qed

section \<open>C1: starting a generation while another one is active\<close>

text \<open>
  C1, as amended. Starting a generation never aborts a controller: with the stream
  still silent, the store holds the freshly allocated controller and the new
  \<^verbatim>\<open>chatLoadingId\<close>, and the heap of controllers is the old one with one more, unfired,
  controller; whatever the stream then delivers, the flag of every controller that
  existed before the start, the previous session's among them, is what it was.
\<close>

theorem start_replaces_session_without_abort:
  "abortController (snd (generateMessage d ms a [] s)) = Some (length (signals s)) \<and>
   chatLoadingId (snd (generateMessage d ms a [] s)) = Some a \<and>
   signals (snd (generateMessage d ms a [] s)) = signals s @ [False] \<and>
   take (length (signals s)) (signals (snd (generateMessage d ms a es s))) = signals s"
proof -
  let ?s1 = "entered d ms a s"
  let ?v0 = "\<lparr>output_v = [], isFunctionCall = False\<rparr>"
  let ?r = "stream d a (length (signals s)) es (?v0, ?s1)"
  have len: "length (signals (snd (snd ?r))) = Suc (length (signals s))"
    using stream_signals[where d=d and a=a and h="length (signals s)" and es=es and v="?v0" and s="?s1"] by simp
  have nth: "\<And>k. k < length (signals s) \<Longrightarrow> signals (snd (snd ?r)) ! k = signals s ! k"
    using stream_signals[where d=d and a=a and h="length (signals s)" and es=es and v="?v0" and s="?s1"] by (simp add: nth_append)
  have "take (length (signals s)) (signals (snd (snd ?r))) = signals s"
    by (rule nth_equalityI) (use len nth in auto)
  then have "take (length (signals s)) (signals (snd (generateMessage d ms a es s))) = signals s"
    by (simp add: generateMessage_unfold Let_def)
  then show ?thesis
    by (simp add: generateMessage_unfold Let_def)
qed

text \<open>
  C1 as stated fails: a generation for \<^verbatim>\<open>a2\<close> started while the session for \<^verbatim>\<open>a1\<close>
  (controller 0) is active leaves both calls pending and controller 0 unfired.
\<close>

theorem start_while_active_counterexample:
  "abortController (snd (generateMessage demo_deps [] ''a1'' [] idle_store)) = Some 0 \<and>
   chatLoadingId (snd (generateMessage demo_deps [] ''a1'' [] idle_store)) = Some ''a1'' \<and>
   fst (generateMessage demo_deps [] ''a2'' []
          (snd (generateMessage demo_deps [] ''a1'' [] idle_store))) = Pending \<and>
   abortController (snd (generateMessage demo_deps [] ''a2'' []
          (snd (generateMessage demo_deps [] ''a1'' [] idle_store)))) = Some 1 \<and>
   \<not> aborted (snd (generateMessage demo_deps [] ''a2'' []
          (snd (generateMessage demo_deps [] ''a1'' [] idle_store)))) 0"
  by (simp add: generateMessage_unfold postMessages_def Let_def aborted_def idle_store_def
      demo_deps_def)

lemma contentUpdates_simps [simp]:
  "contentUpdates a [] = []"
  "contentUpdates a (xs @ ys) = contentUpdates a xs @ contentUpdates a ys"
  "contentUpdates a (p # ps) = contentValue a p @ contentUpdates a ps"
  by (simp_all add: contentUpdates_def)

lemma stream_append:
  "stream d a h (es1 @ es2) vs =
     (if fst (stream d a h es1 vs) then stream d a h es1 vs
      else stream d a h es2 (snd (stream d a h es1 vs)))"
proof (induction es1 arbitrary: vs)
  case Nil
  show ?case by simp
next
  case (Cons e es1)
  show ?case by (cases e) (simp_all add: Cons.IH)
qed

lemma onMessageHandle_cases:
  obtains v' where "\<not> aborted s h"
      "onMessageHandle d a h t (v, s) =
         (v', dispatchMessage (UpdateMessage (Some a) (Content (output_v v @ t))) s)"
      "output_v v' = output_v v @ t"
  | v' where "aborted s h" "onMessageHandle d a h t (v, s) = (v', s)"
      "output_v v' = output_v v @ t"
  by (cases "aborted s h") (auto simp: onMessageHandle_def Let_def)

lemma stream_prefix_sorted:
  "\<exists>new. dispatched (snd (snd (stream d a h es (v, s)))) = dispatched s @ new \<and>
         sorted_wrt prefix (contentUpdates a new) \<and>
         (\<forall>t \<in> set (contentUpdates a new). prefix (output_v v) t)"
proof (induction es arbitrary: v s)
  case Nil
  show ?case by simp
next
  case (Cons e es)
  show ?case
  proof (cases e)
    case (Chunk t)
    show ?thesis
    proof (rule onMessageHandle_cases[of s h d a t v])
      fix v'
      assume na: "\<not> aborted s h"
        and eq: "onMessageHandle d a h t (v, s) =
                   (v', dispatchMessage (UpdateMessage (Some a) (Content (output_v v @ t))) s)"
        and out: "output_v v' = output_v v @ t"
      let ?s' = "dispatchMessage (UpdateMessage (Some a) (Content (output_v v @ t))) s"
      from Cons.IH[of v' ?s'] obtain new where
        n1: "dispatched (snd (snd (stream d a h es (v', ?s')))) = dispatched ?s' @ new"
        and n2: "sorted_wrt prefix (contentUpdates a new)"
        and n3: "\<forall>u \<in> set (contentUpdates a new). prefix (output_v v') u" by blast
      let ?new = "UpdateMessage (Some a) (Content (output_v v @ t)) # new"
      have "dispatched (snd (snd (stream d a h (e # es) (v, s)))) = dispatched s @ ?new"
        using Chunk eq n1 by simp
      moreover have "sorted_wrt prefix (contentUpdates a ?new)"
        using n2 n3 out by simp
      moreover have "\<forall>u \<in> set (contentUpdates a ?new). prefix (output_v v) u"
        using n3 out by (auto dest: append_prefixD)
      ultimately show ?thesis by blast
    next
      fix v'
      assume eq: "onMessageHandle d a h t (v, s) = (v', s)"
        and out: "output_v v' = output_v v @ t"
      from Cons.IH[of v' s] obtain new where
        n1: "dispatched (snd (snd (stream d a h es (v', s)))) = dispatched s @ new"
        and n2: "sorted_wrt prefix (contentUpdates a new)"
        and n3: "\<forall>u \<in> set (contentUpdates a new). prefix (output_v v') u" by blast
      have "\<forall>u \<in> set (contentUpdates a new). prefix (output_v v) u"
        using n3 out by (auto dest: append_prefixD)
      with n1 n2 Chunk eq show ?thesis by auto
    qed
  next
    case (Failure x)
    have "dispatched (snd (snd (stream d a h (e # es) (v, s)))) =
            dispatched s @ [UpdateMessage (Some a) (Error x)]"
      using Failure by (simp add: onErrorHandle_def)
    then show ?thesis by (intro exI[of _ "[UpdateMessage (Some a) (Error x)]"]) simp
  next
    case Closed
    then show ?thesis by simp
  next
    case Aborted
    with Cons.IH[of v "abort h s"] show ?thesis by simp
  qed
qed

section \<open>C3: streaming accumulation is monotonic\<close>

text \<open>
  C3. For every run of \<open>generateMessage\<close> and every history of the stream, the content
  values dispatched for the generating message during the run (the commands added to
  the history after the start), read in dispatch order, are prefix-increasing: every
  later value has every earlier one as a prefix.
\<close>

theorem generateMessage_contents_prefix_increasing:
  "sorted_wrt prefix
     (contentUpdates a
        (drop (length (dispatched s)) (dispatched (snd (generateMessage d ms a es s)))))"
proof -
  let ?s1 = "entered d ms a s"
  let ?v0 = "\<lparr>output_v = [], isFunctionCall = False\<rparr>"
  let ?es = "if postMessages d (config s) ms = None then [] else es"
  let ?r = "stream d a (length (signals s)) ?es (?v0, ?s1)"
  obtain new where n1: "dispatched (snd (snd ?r)) = dispatched ?s1 @ new"
    and n2: "sorted_wrt prefix (contentUpdates a new)"
    using stream_prefix_sorted[where d=d and a=a and h="length (signals s)" and es="?es"
        and v="?v0" and s="?s1"] by blast
  have "dispatched (snd (generateMessage d ms a es s)) = dispatched s @ new"
    using n1 by (simp only: generateMessage_stream_fields entered_fields)
  with n2 show ?thesis by simp
qed

text \<open>
  The scenario of the specification: the chunks \<^verbatim>\<open>Hel\<close>, \<^verbatim>\<open>lo\<close> and the end of the stream
  give the dispatched contents \<^verbatim>\<open>Hel\<close>, \<^verbatim>\<open>Hello\<close> and the result
  \<^verbatim>\<open>{ isFunctionCall: false }\<close>.
\<close>

theorem generateMessage_contents_prefix_increasing_witness:
  "sorted_wrt prefix [''Hel'', ''Hello''] \<and>
   contentUpdates ''a1''
     (drop (length (dispatched idle_store))
        (dispatched (snd (generateMessage demo_deps [] ''a1''
           [Chunk ''Hel'', Chunk ''lo'', Closed] idle_store)))) = [''Hel'', ''Hello''] \<and>
   fst (generateMessage demo_deps [] ''a1'' [Chunk ''Hel'', Chunk ''lo'', Closed] idle_store)
     = Returned False"
  using generateMessage_contents_prefix_increasing[of "''a1''" idle_store demo_deps "[]" "[Chunk ''Hel'', Chunk ''lo'', Closed]"]
  by (simp add: generateMessage_unfold postMessages_def Let_def aborted_def idle_store_def demo_deps_def
      onMessageHandle_def onErrorHandle_def)

section \<open>C5: no content update after the cancellation signal has fired\<close>

lemma content_updateFirst_Error:
  "map content (updateFirst P (applyUpdate (Error e)) xs) = map content xs"
  by (induction xs) auto

lemma stream_after_abort:
  assumes "aborted s h"
  shows "contentUpdates i (dispatched (snd (snd (stream d a h es (v, s))))) =
           contentUpdates i (dispatched s) \<and>
         map content (chats (snd (snd (stream d a h es (v, s))))) = map content (chats s)"
  using assms
proof (induction es arbitrary: v s)
  case Nil
  show ?case by simp
next
  case (Cons e es)
  show ?case
  proof (cases e)
    case (Chunk t)
    obtain v' where "onMessageHandle d a h t (v, s) = (v', s)"
      using Cons.prems by (auto simp: onMessageHandle_def Let_def)
    with Cons.IH[OF Cons.prems, of v'] Chunk show ?thesis by simp
  next
    case (Failure x)
    then show ?thesis by (simp add: onErrorHandle_def content_updateFirst_Error)
  next
    case Closed
    then show ?thesis by simp
  next
    case Aborted
    have "aborted (abort h s) h" using Cons.prems by (simp add: aborted_def)
    from Cons.IH[OF this, of v] Aborted show ?thesis by simp
  qed
qed

text \<open>
  C5. Once the cancellation signal of a run of \<open>generateMessage\<close> has fired, whatever
  the stream delivers afterwards (\<open>es2\<close>) adds no \<^verbatim>\<open>updateMessage\<close> of the content of
  the generating message to the history of commands, and the contents of the chats
  stay what they were when the signal fired.
\<close>

theorem no_content_dispatch_after_abort:
  "contentUpdates a (dispatched (snd (generateMessage d ms a (es1 @ Aborted # es2) s))) =
     contentUpdates a (dispatched (snd (generateMessage d ms a (es1 @ [Aborted]) s))) \<and>
   map content (chats (snd (generateMessage d ms a (es1 @ Aborted # es2) s))) =
     map content (chats (snd (generateMessage d ms a (es1 @ [Aborted]) s)))"
proof -
  let ?h = "length (signals s)"
  let ?s1 = "entered d ms a s"
  let ?v0 = "\<lparr>output_v = [], isFunctionCall = False\<rparr>"
  let ?r1 = "stream d a ?h es1 (?v0, ?s1)"
  consider (threw) "postMessages d (config s) ms = None"
    | (ended) pm where "postMessages d (config s) ms = Some pm" "fst ?r1"
    | (running) pm where "postMessages d (config s) ms = Some pm" "\<not> fst ?r1"
    by (cases "postMessages d (config s) ms") auto
  then show ?thesis
  proof cases
    case threw
    then show ?thesis by (simp add: generateMessage_stream_fields)
  next
    case ended
    then show ?thesis by (simp add: generateMessage_stream_fields stream_append)
  next
    case running
    then have False: "\<not> fst ?r1" by simp
    obtain v1 s1 where r1: "snd ?r1 = (v1, s1)" by (cases "snd ?r1")
    have "length (signals s1) = Suc ?h"
      using stream_signals[where d=d and a=a and h="?h" and es=es1 and v="?v0" and s="?s1"] r1
      by simp
    then have ab: "aborted (abort ?h s1) ?h" by (simp add: aborted_def)
    have "stream d a ?h (es1 @ Aborted # es2) (?v0, ?s1) = stream d a ?h es2 (v1, abort ?h s1)"
      using False r1 by (simp add: stream_append)
    moreover have "stream d a ?h (es1 @ [Aborted]) (?v0, ?s1) = (False, v1, abort ?h s1)"
      using False r1 by (simp add: stream_append)
    ultimately show ?thesis
      using stream_after_abort[OF ab, where i=a and d=d and a=a and es=es2 and v=v1] running(1)
      by (simp add: generateMessage_stream_fields)
  qed
qed

text \<open>
  An instance: the chunk \<^verbatim>\<open>lo\<close> that arrives after the signal has fired is not dispatched.
\<close>

theorem no_content_dispatch_after_abort_witness:
  "contentUpdates ''a1'' (dispatched (snd (generateMessage demo_deps [] ''a1''
      ([Chunk ''Hel''] @ Aborted # [Chunk ''lo'', Closed]) idle_store))) = [''Hel''] \<and>
   contentUpdates ''a1'' (dispatched (snd (generateMessage demo_deps [] ''a1''
      ([Chunk ''Hel''] @ [Aborted]) idle_store))) = [''Hel'']"
  using no_content_dispatch_after_abort[where a="''a1''" and d=demo_deps and ms="[]" and ?es1.0="[Chunk ''Hel'']"
      and ?es2.0="[Chunk ''lo'', Closed]" and s=idle_store]
  by (simp add: generateMessage_unfold postMessages_def Let_def aborted_def idle_store_def demo_deps_def
      onMessageHandle_def onErrorHandle_def)

section \<open>C4: a failure of the stream\<close>

lemma stream_pending:
  "list_all (\<lambda>ev. \<not> terminal ev) es \<Longrightarrow> fst (stream d a h es vs) = False"
proof (induction es arbitrary: vs)
  case Nil
  show ?case by simp
next
  case (Cons e es)
  then show ?case by (cases e) simp_all
qed

lemma find_updateFirst:
  assumes "\<And>x. P (f x) = P x"
  shows "find P (updateFirst P f xs) = map_option f (find P xs)"
  using assms by (induction xs) auto

lemma msg_id_applyUpdate [simp]: "msg_id (applyUpdate u m) = msg_id m"
  by (cases u) simp_all

lemma updateFirst_nth_other:
  "k < length xs \<Longrightarrow> \<not> P (xs ! k) \<Longrightarrow> updateFirst P f xs ! k = xs ! k"
proof (induction xs arbitrary: k)
  case Nil
  then show ?case by simp
next
  case (Cons x xs)
  then show ?case by (cases k) auto
qed

lemma length_updateFirst [simp]: "length (updateFirst P f xs) = length xs"
  by (induction xs) auto

text \<open>
  C4. Let the request have been issued and let the stream deliver \<open>pre\<close> (chunks and
  signal firings, no end and no failure) and then the failure \<open>e\<close>. Before the failure
  the call is pending. After it the call has returned a result (nothing is thrown) and
  the store is the one from before the failure with exactly these changes: the
  command that writes \<open>e\<close> on the target is added to the history, the first message
  with the id \<open>a\<close> (if there is one) has \<open>e\<close> in its \<^verbatim>\<open>error\<close> field, and
  \<^verbatim>\<open>chatLoadingId\<close> and the controller are cleared. So the accumulated content of the
  target is kept, every message with another id is what it was, error field included,
  and no message has changed its content.
\<close>

theorem stream_failure_recorded_on_message:
  assumes "list_all (\<lambda>ev. \<not> terminal ev) pre"
    and "postMessages d (config s) ms = Some payload"
  shows "fst (generateMessage d ms a pre s) = Pending \<and>
    (\<exists>b. fst (generateMessage d ms a (pre @ Failure e # rest) s) = Returned b) \<and>
    snd (generateMessage d ms a (pre @ Failure e # rest) s) =
      (snd (generateMessage d ms a pre s))
        \<lparr>chats := updateFirst (\<lambda>m. msg_id m = a) (\<lambda>m. m\<lparr>error := Some e\<rparr>)
                   (chats (snd (generateMessage d ms a pre s))),
         abortController := None, chatLoadingId := None,
         dispatched := dispatched (snd (generateMessage d ms a pre s)) @
                         [UpdateMessage (Some a) (Error e)]\<rparr> \<and>
    chatLoadingId (snd (generateMessage d ms a (pre @ Failure e # rest) s)) = None \<and>
    abortController (snd (generateMessage d ms a (pre @ Failure e # rest) s)) = None \<and>
    find (\<lambda>m. msg_id m = a) (chats (snd (generateMessage d ms a (pre @ Failure e # rest) s))) =
      map_option (\<lambda>m. m\<lparr>error := Some e\<rparr>)
        (find (\<lambda>m. msg_id m = a) (chats (snd (generateMessage d ms a pre s)))) \<and>
    length (chats (snd (generateMessage d ms a (pre @ Failure e # rest) s))) =
      length (chats (snd (generateMessage d ms a pre s))) \<and>
    (\<forall>k < length (chats (snd (generateMessage d ms a pre s))).
       msg_id (chats (snd (generateMessage d ms a pre s)) ! k) \<noteq> a \<longrightarrow>
       chats (snd (generateMessage d ms a (pre @ Failure e # rest) s)) ! k =
         chats (snd (generateMessage d ms a pre s)) ! k) \<and>
    map content (chats (snd (generateMessage d ms a (pre @ Failure e # rest) s))) =
      map content (chats (snd (generateMessage d ms a pre s)))"
proof -
  let ?h = "length (signals s)"
  let ?s1 = "entered d ms a s"
  let ?v0 = "\<lparr>output_v = [], isFunctionCall = False\<rparr>"
  let ?r1 = "stream d a ?h pre (?v0, ?s1)"
  let ?P = "\<lambda>m. msg_id m = a"
  let ?f = "\<lambda>m. m\<lparr>error := Some e\<rparr>"
  have pend: "fst ?r1 = False" using assms(1) by (rule stream_pending)
  obtain v1 s1 where r1: "snd ?r1 = (v1, s1)" by (cases "snd ?r1")
  have before: "generateMessage d ms a pre s = (Pending, s1)"
    using pend r1 assms(2) by (simp add: generateMessage_unfold Let_def)
  have "stream d a ?h (pre @ Failure e # rest) (?v0, ?s1) = (True, v1, onErrorHandle a e s1)"
    using pend r1 by (simp add: stream_append)
  then have after: "generateMessage d ms a (pre @ Failure e # rest) s =
      (Returned (isFunctionCall v1), snd (toggleChatLoading False None (onErrorHandle a e s1)))"
    using assms(2) by (simp add: generateMessage_unfold Let_def)
  have f: "applyUpdate (Error e) = ?f" by (rule ext) simp
  have store: "snd (toggleChatLoading False None (onErrorHandle a e s1)) =
      s1\<lparr>chats := updateFirst ?P ?f (chats s1), abortController := None,
         chatLoadingId := None,
         dispatched := dispatched s1 @ [UpdateMessage (Some a) (Error e)]\<rparr>"
    by (simp add: toggleChatLoading_def onErrorHandle_def dispatchMessage_def f
        del: applyUpdate.simps)
  have target: "find ?P (updateFirst ?P ?f (chats s1)) = map_option ?f (find ?P (chats s1))"
    by (rule find_updateFirst) simp
  have other: "\<forall>k < length (chats s1). msg_id (chats s1 ! k) \<noteq> a \<longrightarrow>
      updateFirst ?P ?f (chats s1) ! k = chats s1 ! k"
    by (simp add: updateFirst_nth_other)
  have cont: "map content (updateFirst ?P ?f (chats s1)) = map content (chats s1)"
    using content_updateFirst_Error[of ?P e "chats s1"] by (simp only: f)
  show ?thesis
    unfolding before after snd_conv fst_conv store
    using target other cont by simp
qed

text \<open>
  The scenario of the specification: a failure after the chunk \<^verbatim>\<open>Hel\<close> leaves the content
  \<^verbatim>\<open>Hel\<close>, a populated \<^verbatim>\<open>error\<close> field on the reply alone and no \<^verbatim>\<open>chatLoadingId\<close>.
\<close>

theorem stream_failure_recorded_on_message_witness:
  "list_all (\<lambda>ev. \<not> terminal ev) [Chunk ''Hel''] \<and>
   postMessages demo_deps (config loading_store) (chats loading_store) =
     Some (chats loading_store) \<and>
   fst (generateMessage demo_deps (chats loading_store) ''a1''
          ([Chunk ''Hel''] @ Failure ''boom'' # []) loading_store) = Returned False \<and>
   chatLoadingId (snd (generateMessage demo_deps (chats loading_store) ''a1''
          ([Chunk ''Hel''] @ Failure ''boom'' # []) loading_store)) = None \<and>
   chats (snd (generateMessage demo_deps (chats loading_store) ''a1''
          ([Chunk ''Hel''] @ Failure ''boom'' # []) loading_store)) =
     [\<lparr>msg_id = ''u1'', role = User, content = ''hello'', parentId = None, extra = [],
        error = None\<rparr>,
      \<lparr>msg_id = ''a1'', role = Assistant, content = ''Hel'', parentId = Some ''u1'',
        extra = [(''fromModel'', ''gpt'')], error = Some ''boom''\<rparr>]"
proof -
  have h: "list_all (\<lambda>ev. \<not> terminal ev) [Chunk ''Hel'']" by simp
  have p: "postMessages demo_deps (config loading_store) (chats loading_store) =
      Some (chats loading_store)"
    by (simp add: postMessages_def loading_store_def idle_store_def demo_deps_def)
  show ?thesis
    using h p stream_failure_recorded_on_message[OF h p, where a="''a1''" and e="''boom''"
        and rest="[]"]
    by (simp add: generateMessage_unfold postMessages_def Let_def aborted_def idle_store_def
        demo_deps_def loading_store_def onMessageHandle_def onErrorHandle_def)
qed

section \<open>C6: stopping the generation\<close>

lemma updateFirst_last:
  assumes "xs \<noteq> []" "P (last xs)" "\<forall>x \<in> set (butlast xs). \<not> P x"
  shows "updateFirst P f xs = butlast xs @ [f (last xs)]"
  using assms
proof (induction xs)
  case Nil
  then show ?case by simp
next
  case (Cons x xs)
  show ?case
  proof (cases "xs = []")
    case True
    with Cons.prems show ?thesis by simp
  next
    case False
    with Cons.prems have "\<not> P x" "P (last xs)" "\<forall>y \<in> set (butlast xs). \<not> P y" by auto
    with Cons.IH False show ?thesis by simp
  qed
qed

text \<open>
  C6, as amended. When a session is active whose \<^verbatim>\<open>chatLoadingId\<close> is the id of the last
  message (and of no earlier one) and the content of the last message is the sentinel,
  \<open>stopGenerateMessage\<close> dispatches one update that sets the content of that message to
  the empty string, fires the stored controller and clears controller and
  \<^verbatim>\<open>chatLoadingId\<close>. When no session is active (no controller, no \<^verbatim>\<open>chatLoadingId\<close>) it
  leaves chats, controllers and session fields as they are.
\<close>

theorem stop_clears_loading_message:
  "(chats s \<noteq> [] \<and> content (last (chats s)) = LOADING_FLAT d \<and>
    abortController s = Some h \<and> h < length (signals s) \<and>
    chatLoadingId s = Some (msg_id (last (chats s))) \<and>
    (\<forall>m \<in> set (butlast (chats s)). msg_id m \<noteq> msg_id (last (chats s)))
    \<longrightarrow>
      dispatched (stopGenerateMessage d s) =
        dispatched s @ [UpdateMessage (Some (msg_id (last (chats s)))) (Content [])] \<and>
      chats (stopGenerateMessage d s) = butlast (chats s) @ [(last (chats s))\<lparr>content := []\<rparr>] \<and>
      aborted (stopGenerateMessage d s) h \<and>
      abortController (stopGenerateMessage d s) = None \<and>
      chatLoadingId (stopGenerateMessage d s) = None) \<and>
   (abortController s = None \<and> chatLoadingId s = None
    \<longrightarrow>
      chats (stopGenerateMessage d s) = chats s \<and>
      signals (stopGenerateMessage d s) = signals s \<and>
      abortController (stopGenerateMessage d s) = None \<and>
      chatLoadingId (stopGenerateMessage d s) = None)"
proof (intro conjI impI)
  assume a: "chats s \<noteq> [] \<and> content (last (chats s)) = LOADING_FLAT d \<and>
    abortController s = Some h \<and> h < length (signals s) \<and>
    chatLoadingId s = Some (msg_id (last (chats s))) \<and>
    (\<forall>m \<in> set (butlast (chats s)). msg_id m \<noteq> msg_id (last (chats s)))"
  let ?i = "msg_id (last (chats s))"
  let ?s1 = "dispatchMessage (UpdateMessage (Some ?i) (Content [])) s"
  have stop: "stopGenerateMessage d s = snd (toggleChatLoading False None (abort h ?s1))"
    using a by (simp add: stopGenerateMessage_def)
  have upd: "updateFirst (\<lambda>m. msg_id m = ?i) (applyUpdate (Content [])) (chats s) =
      butlast (chats s) @ [applyUpdate (Content []) (last (chats s))]"
    by (rule updateFirst_last) (use a in auto)
  show "dispatched (stopGenerateMessage d s) =
        dispatched s @ [UpdateMessage (Some ?i) (Content [])]"
    by (simp add: stop)
  show "chats (stopGenerateMessage d s) = butlast (chats s) @ [(last (chats s))\<lparr>content := []\<rparr>]"
    using upd by (simp add: stop)
  show "aborted (stopGenerateMessage d s) h"
    using a by (simp add: stop aborted_def)
  show "abortController (stopGenerateMessage d s) = None" by (simp add: stop)
  show "chatLoadingId (stopGenerateMessage d s) = None" by (simp add: stop)
next
  assume b: "abortController s = None \<and> chatLoadingId s = None"
  then have stop: "stopGenerateMessage d s =
      (if chats s \<noteq> [] \<and> content (last (chats s)) = LOADING_FLAT d
       then dispatchMessage (UpdateMessage None (Content [])) s else s)"
    by (simp add: stopGenerateMessage_def)
  show "chats (stopGenerateMessage d s) = chats s" by (simp add: stop)
  show "signals (stopGenerateMessage d s) = signals s" by (simp add: stop)
  show "abortController (stopGenerateMessage d s) = None" using b by (simp add: stop)
  show "chatLoadingId (stopGenerateMessage d s) = None" using b by (simp add: stop)
qed

text \<open>
  C6 as stated fails: the last message holds the sentinel, yet the update goes to
  \<^verbatim>\<open>chatLoadingId\<close>, which is another message; the last message keeps its content and the
  message being generated loses what it had accumulated.
\<close>

theorem stop_update_targets_loading_id_counterexample:
  "chats interleaved_store \<noteq> [] \<and>
   content (last (chats interleaved_store)) = LOADING_FLAT demo_deps \<and>
   abortController interleaved_store = Some 0 \<and>
   chatLoadingId interleaved_store = Some ''a1'' \<and>
   dispatched (stopGenerateMessage demo_deps interleaved_store) =
     [UpdateMessage (Some ''a1'') (Content [])] \<and>
   map content (chats (stopGenerateMessage demo_deps interleaved_store)) = ['''', ''...''] \<and>
   content (last (chats (stopGenerateMessage demo_deps interleaved_store))) \<noteq> []"
  by (simp add: interleaved_store_def idle_store_def demo_deps_def stopGenerateMessage_def
      toggleChatLoading_def)

text \<open>
  Instances of both halves: stopping right after the generation for the placeholder
  \<^verbatim>\<open>a1\<close> has started, and stopping with no session.
\<close>

theorem stop_clears_loading_message_witness:
  "(chats (snd (generateMessage demo_deps [] ''a1'' [] loading_store)) \<noteq> [] \<and>
    abortController (snd (generateMessage demo_deps [] ''a1'' [] loading_store)) = Some 0 \<and>
    chatLoadingId (snd (generateMessage demo_deps [] ''a1'' [] loading_store)) = Some ''a1'') \<and>
   map content (chats (stopGenerateMessage demo_deps
      (snd (generateMessage demo_deps [] ''a1'' [] loading_store)))) = [''hello'', ''''] \<and>
   aborted (stopGenerateMessage demo_deps
      (snd (generateMessage demo_deps [] ''a1'' [] loading_store))) 0 \<and>
   chatLoadingId (stopGenerateMessage demo_deps
      (snd (generateMessage demo_deps [] ''a1'' [] loading_store))) = None \<and>
   (abortController loading_store = None \<and> chatLoadingId loading_store = None) \<and>
   chats (stopGenerateMessage demo_deps loading_store) = chats loading_store"
  using stop_clears_loading_message[of "snd (generateMessage demo_deps [] ''a1'' [] loading_store)" demo_deps 0]
    stop_clears_loading_message[of loading_store demo_deps 0]
  by (simp add: generateMessage_unfold Let_def loading_store_def idle_store_def demo_deps_def)

section \<open>C8 and C10: sending a message\<close>

lemma core_updateFirst_extra:
  "map core (updateFirst P (\<lambda>m. m\<lparr>extra := f (extra m)\<rparr>) xs) = map core xs"
  by (induction xs) (auto simp: core_def)

lemma generateMessage_dispatched_extends:
  "\<exists>new. dispatched (snd (generateMessage d ms a es s)) = dispatched s @ new"
proof -
  let ?s1 = "entered d ms a s"
  let ?v0 = "\<lparr>output_v = [], isFunctionCall = False\<rparr>"
  let ?es = "if postMessages d (config s) ms = None then [] else es"
  obtain new where "dispatched (snd (snd (stream d a (length (signals s)) ?es (?v0, ?s1))))
      = dispatched ?s1 @ new"
    using stream_prefix_sorted[where d=d and a=a and h="length (signals s)" and es="?es"
        and v="?v0" and s="?s1"] by blast
  then show ?thesis by (simp only: generateMessage_stream_fields entered_fields) blast
qed

lemma generateMessage_silent:
  "snd (generateMessage d ms a [] s) = entered d ms a s"
  by (simp add: generateMessage_unfold Let_def)

lemma sendMessage_unfold:
  assumes "text \<noteq> []"
  shows "sendMessage d text es s =
    (let uid = nanoid d (nanoidCount s);
         s2 = dispatchMessage (AddMessage uid text User None) (s\<lparr>nanoidCount := Suc (nanoidCount s)\<rparr>);
         mid = (case genMessageId s of
                  Some g \<Rightarrow> g (chats s2) uid
                | None \<Rightarrow> nanoid d (Suc (nanoidCount s)));
         s3 = (case genMessageId s of
                  Some g \<Rightarrow> s2
                | None \<Rightarrow> s2\<lparr>nanoidCount := Suc (Suc (nanoidCount s))\<rparr>);
         s4 = dispatchMessage (AddMessage mid (LOADING_FLAT d) Assistant (Some uid)) s3;
         s5 = dispatchMessage (UpdateMessageExtra mid ''fromModel'' (model (config s))) s4
     in snd (generateMessage d (chats s2) mid es s5))"
  using assms
  by (cases "genMessageId s")
    (simp_all add: sendMessage_def realFetchAIResponse_def realFetchAIResponse_resume_def
      getMessageId_def currentChats_def Let_def dispatchMessage_def)

text \<open>
  C8. \<open>sendMessage\<close> with the empty text leaves the store as it is. With a non-empty
  text, at the point where the stream is awaited, the chats are the old ones followed
  by exactly two messages: the user message with the text and the id drawn from
  \<^verbatim>\<open>nanoid\<close>, then the assistant placeholder whose content is the sentinel and whose
  \<^verbatim>\<open>parentId\<close> is the id of the user message; \<^verbatim>\<open>chatLoadingId\<close> is the id of the
  placeholder. On the empty conversation these two are all the chats.
\<close>

theorem send_appends_user_and_placeholder:
  "sendMessage d [] es s = s \<and>
   (text \<noteq> [] \<longrightarrow>
     (let uid = nanoid d (nanoidCount s);
          u = \<lparr>msg_id = uid, role = User, content = text, parentId = None, extra = [],
               error = None\<rparr>;
          mid = (case genMessageId s of
                   Some g \<Rightarrow> g (chats s @ [u]) uid
                 | None \<Rightarrow> nanoid d (Suc (nanoidCount s)))
      in map core (chats (sendMessage d text [] s)) =
           map core (chats s) @
             [(uid, User, text, None, None), (mid, Assistant, LOADING_FLAT d, Some uid, None)] \<and>
         chatLoadingId (sendMessage d text [] s) = Some mid))"
proof (intro conjI impI)
  show "sendMessage d [] es s = s" by (simp add: sendMessage_def)
next
  assume t: "text \<noteq> []"
  show "let uid = nanoid d (nanoidCount s);
          u = \<lparr>msg_id = uid, role = User, content = text, parentId = None, extra = [],
               error = None\<rparr>;
          mid = (case genMessageId s of
                   Some g \<Rightarrow> g (chats s @ [u]) uid
                 | None \<Rightarrow> nanoid d (Suc (nanoidCount s)))
      in map core (chats (sendMessage d text [] s)) =
           map core (chats s) @
             [(uid, User, text, None, None), (mid, Assistant, LOADING_FLAT d, Some uid, None)] \<and>
         chatLoadingId (sendMessage d text [] s) = Some mid"
    by (cases "genMessageId s")
      (simp_all add: sendMessage_unfold[OF t] generateMessage_silent Let_def
        core_updateFirst_extra, simp_all add: core_def)
qed

text \<open>The scenario of the specification: \<^verbatim>\<open>hello\<close> sent on the empty conversation.\<close>

theorem send_appends_user_and_placeholder_witness:
  "''hello'' \<noteq> [] \<and>
   chats (sendMessage demo_deps ''hello'' [] idle_store) =
     [\<lparr>msg_id = ''i'', role = User, content = ''hello'', parentId = None, extra = [],
        error = None\<rparr>,
      \<lparr>msg_id = ''ii'', role = Assistant, content = ''...'', parentId = Some ''i'',
        extra = [(''fromModel'', ''gpt'')], error = None\<rparr>] \<and>
   chatLoadingId (sendMessage demo_deps ''hello'' [] idle_store) = Some ''ii''"
  using send_appends_user_and_placeholder[of demo_deps "[]" idle_store "''hello''"]
  by (simp add: sendMessage_unfold generateMessage_silent Let_def idle_store_def demo_deps_def)

lemma sendMessage_dispatched:
  assumes "text \<noteq> []"
  shows "\<exists>new. dispatched (sendMessage d text es s) =
     dispatched s @
       AddMessage (nanoid d (nanoidCount s)) text User None #
       AddMessage (case genMessageId s of
                     Some g \<Rightarrow> g (chats s @ [\<lparr>msg_id = nanoid d (nanoidCount s), role = User,
                                content = text, parentId = None, extra = [], error = None\<rparr>])
                                (nanoid d (nanoidCount s))
                   | None \<Rightarrow> nanoid d (Suc (nanoidCount s)))
         (LOADING_FLAT d) Assistant (Some (nanoid d (nanoidCount s))) # new"
proof -
  define uid where "uid = nanoid d (nanoidCount s)"
  define s2 where
    "s2 = dispatchMessage (AddMessage uid text User None) (s\<lparr>nanoidCount := Suc (nanoidCount s)\<rparr>)"
  define mid where "mid = (case genMessageId s of
       Some g \<Rightarrow> g (chats s2) uid | None \<Rightarrow> nanoid d (Suc (nanoidCount s)))"
  define s3 where "s3 = (case genMessageId s of
       Some g \<Rightarrow> s2 | None \<Rightarrow> s2\<lparr>nanoidCount := Suc (Suc (nanoidCount s))\<rparr>)"
  define s5 where "s5 = dispatchMessage (UpdateMessageExtra mid ''fromModel'' (model (config s)))
       (dispatchMessage (AddMessage mid (LOADING_FLAT d) Assistant (Some uid)) s3)"
  have eq: "sendMessage d text es s = snd (generateMessage d (chats s2) mid es s5)"
    unfolding s5_def s3_def mid_def s2_def uid_def
    by (rule sendMessage_unfold[OF assms, of d es s, unfolded Let_def])
  obtain new where new: "dispatched (snd (generateMessage d (chats s2) mid es s5)) =
      dispatched s5 @ new"
    using generateMessage_dispatched_extends by blast
  have "dispatched s3 = dispatched s @ [AddMessage uid text User None]"
    by (simp add: s3_def s2_def dispatchMessage_def split: option.splits)
  then have "dispatched s5 = dispatched s @
      [AddMessage uid text User None, AddMessage mid (LOADING_FLAT d) Assistant (Some uid),
       UpdateMessageExtra mid ''fromModel'' (model (config s))]"
    by (simp add: s5_def)
  moreover have "chats s2 = chats s @ [\<lparr>msg_id = uid, role = User, content = text,
      parentId = None, extra = [], error = None\<rparr>]"
    by (simp add: s2_def dispatchMessage_def)
  ultimately show ?thesis
    using new eq by (simp add: mid_def uid_def split: option.splits)
qed

text \<open>
  C10. Whatever the stream delivers, the first two commands that \<open>sendMessage\<close>
  dispatches are the \<^verbatim>\<open>addMessage\<close> of the user message, whose id is the one drawn from
  \<^verbatim>\<open>nanoid\<close> whether an override \<open>g\<close> is configured or not, and the \<^verbatim>\<open>addMessage\<close> of the
  placeholder, whose id is the override's result when there is an override and the
  next \<^verbatim>\<open>nanoid\<close> otherwise.
\<close>

theorem override_only_names_placeholder:
  "text \<noteq> [] \<longrightarrow>
     (let uid = nanoid d (nanoidCount s);
          u = \<lparr>msg_id = uid, role = User, content = text, parentId = None, extra = [],
               error = None\<rparr>
      in take 2 (drop (length (dispatched s))
           (dispatched (sendMessage d text es (s\<lparr>genMessageId := Some g\<rparr>)))) =
           [AddMessage uid text User None,
            AddMessage (g (chats s @ [u]) uid) (LOADING_FLAT d) Assistant (Some uid)] \<and>
         take 2 (drop (length (dispatched s))
           (dispatched (sendMessage d text es (s\<lparr>genMessageId := None\<rparr>)))) =
           [AddMessage uid text User None,
            AddMessage (nanoid d (Suc (nanoidCount s))) (LOADING_FLAT d) Assistant (Some uid)])"
proof
  assume t: "text \<noteq> []"
  obtain new1 where n1: "dispatched (sendMessage d text es (s\<lparr>genMessageId := Some g\<rparr>)) =
     dispatched s @
       AddMessage (nanoid d (nanoidCount s)) text User None #
       AddMessage (g (chats s @ [\<lparr>msg_id = nanoid d (nanoidCount s), role = User,
                                content = text, parentId = None, extra = [], error = None\<rparr>])
                                (nanoid d (nanoidCount s)))
         (LOADING_FLAT d) Assistant (Some (nanoid d (nanoidCount s))) # new1"
    using sendMessage_dispatched[OF t, of d es "s\<lparr>genMessageId := Some g\<rparr>"] by auto
  obtain new2 where n2: "dispatched (sendMessage d text es (s\<lparr>genMessageId := None\<rparr>)) =
     dispatched s @
       AddMessage (nanoid d (nanoidCount s)) text User None #
       AddMessage (nanoid d (Suc (nanoidCount s)))
         (LOADING_FLAT d) Assistant (Some (nanoid d (nanoidCount s))) # new2"
    using sendMessage_dispatched[OF t, of d es "s\<lparr>genMessageId := None\<rparr>"] by auto
  show "let uid = nanoid d (nanoidCount s);
          u = \<lparr>msg_id = uid, role = User, content = text, parentId = None, extra = [],
               error = None\<rparr>
      in take 2 (drop (length (dispatched s))
           (dispatched (sendMessage d text es (s\<lparr>genMessageId := Some g\<rparr>)))) =
           [AddMessage uid text User None,
            AddMessage (g (chats s @ [u]) uid) (LOADING_FLAT d) Assistant (Some uid)] \<and>
         take 2 (drop (length (dispatched s))
           (dispatched (sendMessage d text es (s\<lparr>genMessageId := None\<rparr>)))) =
           [AddMessage uid text User None,
            AddMessage (nanoid d (Suc (nanoidCount s))) (LOADING_FLAT d) Assistant (Some uid)]"
    unfolding n1 n2 Let_def by simp
qed

text \<open>An instance with an override that derives the id from the parent id.\<close>

theorem override_only_names_placeholder_witness:
  "''hello'' \<noteq> [] \<and>
   take 2 (drop (length (dispatched idle_store))
     (dispatched (sendMessage demo_deps ''hello'' [Chunk ''Hi'', Closed]
        (idle_store\<lparr>genMessageId := Some (\<lambda>ms p. ''reply-to-'' @ p)\<rparr>)))) =
     [AddMessage ''i'' ''hello'' User None,
      AddMessage ''reply-to-i'' ''...'' Assistant (Some ''i'')] \<and>
   take 2 (drop (length (dispatched idle_store))
     (dispatched (sendMessage demo_deps ''hello'' [Chunk ''Hi'', Closed]
        (idle_store\<lparr>genMessageId := None\<rparr>)))) =
     [AddMessage ''i'' ''hello'' User None,
      AddMessage ''ii'' ''...'' Assistant (Some ''i'')]"
  using override_only_names_placeholder[of "''hello''" demo_deps idle_store "[Chunk ''Hi'', Closed]" "\<lambda>ms p. ''reply-to-'' @ p"]
  by (simp add: Let_def idle_store_def demo_deps_def)

section \<open>C2: the context window of a resend\<close>

lemma findIndex_ge: "- 1 \<le> findIndex P xs"
  by (induction xs) (auto simp: Let_def)

lemma findIndex_found:
  "0 \<le> findIndex P xs \<Longrightarrow> nat (findIndex P xs) < length xs \<and> P (xs ! nat (findIndex P xs))"
proof (induction xs)
  case Nil
  then show ?case by simp
next
  case (Cons x xs)
  show ?case
  proof (cases "P x")
    case True
    then show ?thesis by simp
  next
    case False
    with Cons.prems have nn: "0 \<le> findIndex P xs" by (simp add: Let_def split: if_splits)
    with Cons.IH have "nat (findIndex P xs) < length xs" "P (xs ! nat (findIndex P xs))" by auto
    moreover have "nat (findIndex P xs + 1) = Suc (nat (findIndex P xs))" using nn by simp
    ultimately show ?thesis using False nn by (simp add: Let_def)
  qed
qed

lemma findIndex_missing: "findIndex P xs < 0 \<Longrightarrow> \<forall>x \<in> set xs. \<not> P x"
proof (induction xs)
  case Nil
  then show ?case by simp
next
  case (Cons x xs)
  then show ?case using findIndex_ge[of P xs] by (auto simp: Let_def split: if_splits)
qed

lemma stream_frame:
  "requested (snd (snd (stream d a h es (v, s)))) = requested s \<and>
   config (snd (snd (stream d a h es (v, s)))) = config s \<and>
   nanoidCount (snd (snd (stream d a h es (v, s)))) = nanoidCount s \<and>
   genMessageId (snd (snd (stream d a h es (v, s)))) = genMessageId s"
proof (induction es arbitrary: v s)
  case Nil
  show ?case by simp
next
  case (Cons e es)
  show ?case
  proof (cases e)
    case (Chunk t)
    show ?thesis
      by (rule onMessageHandle_cases[of s h d a t v]) (use Cons.IH Chunk in simp_all)
  next
    case (Failure x)
    then show ?thesis by (simp add: onErrorHandle_def)
  next
    case Closed
    then show ?thesis by simp
  next
    case Aborted
    with Cons.IH[of v "abort h s"] show ?thesis by simp
  qed
qed

text \<open>
  A run issues one request, with the preprocessed context, unless the preprocessing
  throws; then it issues none.
\<close>

lemma generateMessage_requested:
  "requested (snd (generateMessage d ms a es s)) =
     requested s @
       (case postMessages d (config s) ms of None \<Rightarrow> [] | Some payload \<Rightarrow> [payload])"
  using stream_frame[where d=d and a=a and h="length (signals s)" and es=es
      and v="\<lparr>output_v = [], isFunctionCall = False\<rparr>"
      and s="entered d ms a s"]
  by (simp add: generateMessage_unfold Let_def)

lemma realFetchAIResponse_resume_requested:
  "requested (realFetchAIResponse_resume d ms u mid es s) =
     requested s @
       (case postMessages d (config s) ms of None \<Rightarrow> [] | Some payload \<Rightarrow> [payload])"
  by (simp add: realFetchAIResponse_resume_def Let_def generateMessage_requested)

lemma getMessageId_fields [simp]:
  "requested (snd (getMessageId d ms u s)) = requested s"
  "config (snd (getMessageId d ms u s)) = config s"
  "chats (snd (getMessageId d ms u s)) = chats s"
  "dispatched (snd (getMessageId d ms u s)) = dispatched s"
  by (simp_all add: getMessageId_def split: option.splits)

lemma realFetchAIResponse_requested:
  "requested (realFetchAIResponse d ms u es s) =
     requested s @
       (case postMessages d (config s) ms of None \<Rightarrow> [] | Some payload \<Rightarrow> [payload])"
  by (simp add: realFetchAIResponse_def realFetchAIResponse_resume_requested split: prod.splits)
    (metis getMessageId_fields(1,2) snd_conv)

lemma resendMessage_args_context:
  "resendMessage_args messageId s = Some (ctx, latest) \<Longrightarrow>
     ctx = contextMessages (chats s) (findIndex (\<lambda>c. msg_id c = messageId) (chats s))"
  by (auto simp: resendMessage_args_def currentChats_def Let_def split: if_splits list.splits)

text \<open>
  C2, as amended. For a message id present in the chats, with \<open>m\<close> the first message
  that has it: when the role of \<open>m\<close> is user or function, the context is all messages
  up to and including \<open>m\<close>; when it is assistant and its \<^verbatim>\<open>parentId\<close> resolves (to the first
  message \<open>chs ! j\<close> with that id), the context is all messages up to and including that
  parent; when it is assistant and the \<^verbatim>\<open>parentId\<close> does not resolve, the context is all
  messages up to and including \<open>m\<close>. Whenever \<open>resendMessage\<close> goes on to generate, this
  context, preprocessed, is what it sends to the model (and it sends nothing when the
  preprocessing throws).
\<close>

theorem resend_context_window:
  assumes "0 \<le> findIndex (\<lambda>c. msg_id c = messageId) (chats s)"
  shows "let chs = chats s;
             i = findIndex (\<lambda>c. msg_id c = messageId) chs;
             m = chs ! nat i;
             j = findIndex (\<lambda>c. Some (msg_id c) = parentId m) chs
         in nat i < length chs \<and> msg_id m = messageId \<and>
            (role m = User \<or> role m = FunctionRole \<longrightarrow>
               contextMessages chs i = take (Suc (nat i)) chs) \<and>
            (role m = Assistant \<and> 0 \<le> j \<longrightarrow>
               contextMessages chs i = take (Suc (nat j)) chs \<and>
               nat j < length chs \<and> Some (msg_id (chs ! nat j)) = parentId m) \<and>
            (role m = Assistant \<and> j < 0 \<longrightarrow>
               contextMessages chs i = take (Suc (nat i)) chs \<and>
               (\<forall>c \<in> set chs. Some (msg_id c) \<noteq> parentId m)) \<and>
            (\<forall>ctx latest. resendMessage_args messageId s = Some (ctx, latest) \<longrightarrow>
               ctx = contextMessages chs i \<and>
               requested (resendMessage d messageId es s) =
                 requested s @
                 (case postMessages d (config s) ctx of
                    None \<Rightarrow> [] | Some payload \<Rightarrow> [payload]))"
proof -
  define chs where "chs = chats s"
  define i where "i = findIndex (\<lambda>c. msg_id c = messageId) chs"
  define m where "m = chs ! nat i"
  define j where "j = findIndex (\<lambda>c. Some (msg_id c) = parentId m) chs"
  have i0: "0 \<le> i" using assms by (simp add: i_def chs_def)
  have fi: "nat i < length chs" "msg_id m = messageId"
    using findIndex_found[of "\<lambda>c. msg_id c = messageId" chs] i0 by (simp_all add: i_def m_def)
  have suc: "nat (i + 1) = Suc (nat i)" using i0 by simp
  have c1: "role m = User \<or> role m = FunctionRole \<longrightarrow>
      contextMessages chs i = take (Suc (nat i)) chs"
    using i0 suc by (auto simp: contextMessages_def slice0_def m_def Let_def)
  have c2: "role m = Assistant \<and> 0 \<le> j \<longrightarrow>
      contextMessages chs i = take (Suc (nat j)) chs \<and>
      nat j < length chs \<and> Some (msg_id (chs ! nat j)) = parentId m"
  proof
    assume a: "role m = Assistant \<and> 0 \<le> j"
    then have "nat (j + 1) = Suc (nat j)" by linarith
    then have "contextMessages chs i = take (Suc (nat j)) chs"
      using a by (simp add: contextMessages_def slice0_def Let_def m_def[symmetric] j_def[symmetric])
    moreover have "nat j < length chs \<and> Some (msg_id (chs ! nat j)) = parentId m"
      using findIndex_found[of "\<lambda>c. Some (msg_id c) = parentId m" chs] a by (simp add: j_def)
    ultimately show "contextMessages chs i = take (Suc (nat j)) chs \<and>
      nat j < length chs \<and> Some (msg_id (chs ! nat j)) = parentId m" by simp
  qed
  have c3: "role m = Assistant \<and> j < 0 \<longrightarrow>
      contextMessages chs i = take (Suc (nat i)) chs \<and>
      (\<forall>c \<in> set chs. Some (msg_id c) \<noteq> parentId m)"
  proof
    assume a: "role m = Assistant \<and> j < 0"
    then have "contextMessages chs i = take (Suc (nat i)) chs"
      using i0 suc
      by (simp add: contextMessages_def slice0_def Let_def m_def[symmetric] j_def[symmetric])
    moreover have "\<forall>c \<in> set chs. Some (msg_id c) \<noteq> parentId m"
      using findIndex_missing[of "\<lambda>c. Some (msg_id c) = parentId m" chs] a by (simp add: j_def)
    ultimately show "contextMessages chs i = take (Suc (nat i)) chs \<and>
      (\<forall>c \<in> set chs. Some (msg_id c) \<noteq> parentId m)" by simp
  qed
  have c4: "\<forall>ctx latest. resendMessage_args messageId s = Some (ctx, latest) \<longrightarrow>
      ctx = contextMessages chs i \<and>
      requested (resendMessage d messageId es s) = requested s @
                 (case postMessages d (config s) ctx of
                    None \<Rightarrow> [] | Some payload \<Rightarrow> [payload])"
  proof (intro allI impI)
    fix ctx latest
    assume a: "resendMessage_args messageId s = Some (ctx, latest)"
    then have "ctx = contextMessages chs i"
      unfolding i_def chs_def by (rule resendMessage_args_context)
    moreover have "requested (resendMessage d messageId es s) =
        requested s @
                 (case postMessages d (config s) ctx of
                    None \<Rightarrow> [] | Some payload \<Rightarrow> [payload])"
      using a by (simp add: resendMessage_def realFetchAIResponse_requested)
    ultimately show "ctx = contextMessages chs i \<and>
      requested (resendMessage d messageId es s) = requested s @
                 (case postMessages d (config s) ctx of
                    None \<Rightarrow> [] | Some payload \<Rightarrow> [payload])"
      by simp
  qed
  from fi c1 c2 c3 c4 show ?thesis
    unfolding Let_def chs_def[symmetric] i_def[symmetric] m_def[symmetric] j_def[symmetric]
    by blast
qed

text \<open>
  C2 as stated fails: for the reply \<^verbatim>\<open>a1\<close> to the user message \<^verbatim>\<open>u1\<close> the context is the
  slice that ends with \<^verbatim>\<open>u1\<close>, not the (empty) slice strictly before it, and it is sent.
\<close>

theorem resend_context_includes_parent_counterexample:
  "findIndex (\<lambda>c. msg_id c = ''a1'') (chats loading_store) = 1 \<and>
   role (chats loading_store ! 1) = Assistant \<and>
   findIndex (\<lambda>c. Some (msg_id c) = parentId (chats loading_store ! 1)) (chats loading_store) = 0 \<and>
   contextMessages (chats loading_store) 1 = take 1 (chats loading_store) \<and>
   contextMessages (chats loading_store) 1 \<noteq> take 0 (chats loading_store) \<and>
   requested (resendMessage demo_deps ''a1'' [] loading_store) =
     [[\<lparr>msg_id = ''u1'', role = User, content = ''hello'', parentId = None, extra = [],
        error = None\<rparr>]]"
  by (simp add: loading_store_def idle_store_def demo_deps_def Let_def contextMessages_def
      slice0_def resendMessage_def resendMessage_args_def currentChats_def
      realFetchAIResponse_def realFetchAIResponse_resume_def getMessageId_def
      generateMessage_silent postMessages_def)

text \<open>An instance: resending the reply \<^verbatim>\<open>a1\<close>.\<close>

theorem resend_context_window_witness:
  "0 \<le> findIndex (\<lambda>c. msg_id c = ''a1'') (chats loading_store) \<and>
   contextMessages (chats loading_store) 1 =
     [\<lparr>msg_id = ''u1'', role = User, content = ''hello'', parentId = None, extra = [],
       error = None\<rparr>]"
proof -
  have h: "0 \<le> findIndex (\<lambda>c. msg_id c = ''a1'') (chats loading_store)"
    by (simp add: loading_store_def idle_store_def Let_def)
  show ?thesis
    using h resend_context_window[OF h, of demo_deps "[]"]
    by (simp add: loading_store_def idle_store_def Let_def)
qed

section \<open>C9: the input template\<close>

text \<open>
  What holds when the template compiles: the template pass keeps the number and order
  of the messages; a message whose role is not user is passed through unchanged; a
  user message gets the compiler's result as content when the application succeeds
  and is passed through unchanged when it throws.
\<close>

lemma compilerMessages_user_only:
  assumes "template d (inputTemplate cfg) = Some compiler"
  shows "\<exists>out. compilerMessages d cfg ms = Some out \<and> length out = length ms \<and>
    (\<forall>i < length ms.
       (role (ms ! i) \<noteq> User \<longrightarrow> out ! i = ms ! i) \<and>
       (role (ms ! i) = User \<longrightarrow>
          (\<forall>t. compiler (content (ms ! i)) = Some t \<longrightarrow> out ! i = (ms ! i)\<lparr>content := t\<rparr>) \<and>
          (compiler (content (ms ! i)) = None \<longrightarrow> out ! i = ms ! i)))"
  using assms by (simp add: compilerMessages_def)

text \<open>
  With a template that compiles, whether a system role is configured or not, the
  request is issued, and its messages are the result of the template pass on the
  sliced context, after the system message if there is one.
\<close>

lemma generateMessage_with_template:
  assumes "inputTemplate (config s) \<noteq> []"
    and "template d (inputTemplate (config s)) = Some compiler"
  shows "\<exists>out. compilerMessages d (config s) (getSlicedMessagesWithConfig d msgs (config s))
            = Some out \<and>
          fst (generateMessage d msgs a es s) \<noteq> Threw \<and>
          requested (snd (generateMessage d msgs a es s)) =
            requested s @
              [(if systemRole (config s) \<noteq> []
                then [\<lparr>msg_id = [], role = System, content = systemRole (config s),
                       parentId = None, extra = [], error = None\<rparr>]
                else []) @ out]"
proof -
  obtain out where out:
    "compilerMessages d (config s) (getSlicedMessagesWithConfig d msgs (config s)) = Some out"
    using assms(2) by (simp add: compilerMessages_def)
  have pm: "postMessages d (config s) msgs =
      Some ((if systemRole (config s) \<noteq> []
             then [\<lparr>msg_id = [], role = System, content = systemRole (config s),
                    parentId = None, extra = [], error = None\<rparr>]
             else []) @ out)"
    using assms(1) out by (simp add: postMessages_def Let_def)
  have "fst (generateMessage d msgs a es s) \<noteq> Threw"
    using pm by (simp add: generateMessage_unfold Let_def)
  moreover have "requested (snd (generateMessage d msgs a es s)) =
      requested s @
        [(if systemRole (config s) \<noteq> []
          then [\<lparr>msg_id = [], role = System, content = systemRole (config s),
                 parentId = None, extra = [], error = None\<rparr>]
          else []) @ out]"
    using pm by (simp add: generateMessage_requested)
  ultimately show ?thesis using out by blast
qed

text \<open>
  With a template that does not compile, the run throws after the loading state has
  been set: whatever the stream would deliver, no request is issued and the loading
  state stays.
\<close>

lemma generateMessage_template_compile_failure:
  assumes "inputTemplate (config s) \<noteq> []"
    and "template d (inputTemplate (config s)) = None"
  shows "generateMessage d msgs a es s = (Threw, snd (toggleChatLoading True (Some a) s))"
proof -
  have "postMessages d (config s) msgs = None"
    using assms by (simp add: postMessages_def compilerMessages_def Let_def)
  then show ?thesis by (simp add: generateMessage_unfold entered_def)
qed

text \<open>
  C9, where the code departs from it. The claim is that a template error never makes
  the send fail. The input template of \<open>broken_template_store\<close> does not compile, and
  the compilation is outside the \<^verbatim>\<open>try\<close> block of \<^verbatim>\<open>generateMessage\<close>: the generation
  throws instead of going on, no request is issued, and \<^verbatim>\<open>chatLoadingId\<close> and the
  controller stay set; a \<open>sendMessage\<close> leaves the user message and a placeholder that
  still holds the sentinel, whatever the model would have answered.
\<close>

theorem template_compile_failure_rejects_generation:
  "inputTemplate (config broken_template_store) \<noteq> [] \<and>
   template demo_deps (inputTemplate (config broken_template_store)) = None \<and>
   fst (generateMessage demo_deps mixed_messages ''a2'' [Chunk ''x'', Closed]
          broken_template_store) = Threw \<and>
   requested (snd (generateMessage demo_deps mixed_messages ''a2'' [Chunk ''x'', Closed]
          broken_template_store)) = [] \<and>
   chatLoadingId (snd (generateMessage demo_deps mixed_messages ''a2'' [Chunk ''x'', Closed]
          broken_template_store)) = Some ''a2'' \<and>
   abortController (snd (generateMessage demo_deps mixed_messages ''a2'' [Chunk ''x'', Closed]
          broken_template_store)) = Some 0 \<and>
   map content (chats (sendMessage demo_deps ''hi'' [Chunk ''x'', Closed]
          broken_template_store)) = [''hi'', ''...''] \<and>
   requested (sendMessage demo_deps ''hi'' [Chunk ''x'', Closed] broken_template_store) = [] \<and>
   chatLoadingId (sendMessage demo_deps ''hi'' [Chunk ''x'', Closed] broken_template_store)
     = Some ''ii''"
proof -
  have c: "inputTemplate (config broken_template_store) \<noteq> []"
    "template demo_deps (inputTemplate (config broken_template_store)) = None"
    by (simp_all add: broken_template_store_def idle_store_def demo_deps_def)
  have g: "generateMessage demo_deps mixed_messages ''a2'' [Chunk ''x'', Closed]
      broken_template_store =
        (Threw, snd (toggleChatLoading True (Some ''a2'') broken_template_store))"
    using c by (rule generateMessage_template_compile_failure)
  have s1: "map content (chats (sendMessage demo_deps ''hi'' [Chunk ''x'', Closed]
          broken_template_store)) = [''hi'', ''...'']"
    "requested (sendMessage demo_deps ''hi'' [Chunk ''x'', Closed] broken_template_store) = []"
    "chatLoadingId (sendMessage demo_deps ''hi'' [Chunk ''x'', Closed] broken_template_store)
       = Some ''ii''"
    by (simp_all add: sendMessage_unfold generateMessage_unfold postMessages_def
        compilerMessages_def Let_def broken_template_store_def idle_store_def demo_deps_def)
  show ?thesis
    using c s1 unfolding g
    by (simp add: broken_template_store_def idle_store_def)
qed

text \<open>
  For comparison, a template that compiles and throws on one user message: that
  message is sent as it is, the assistant message is untouched, the other user message
  is substituted, and the generation runs to its end.
\<close>

lemma template_application_failure_is_recovered:
  "fst (generateMessage demo_deps mixed_messages ''a2'' [Chunk ''x'', Closed] template_store)
     = Returned False \<and>
   requested (snd (generateMessage demo_deps mixed_messages ''a2'' [Chunk ''x'', Closed]
      template_store)) =
     [[mixed_messages ! 0, mixed_messages ! 1, (mixed_messages ! 2)\<lparr>content := ''Q: hi''\<rparr>]]"
  by (simp add: template_store_def idle_store_def demo_deps_def mixed_messages_def
      compilerMessages_def postMessages_def generateMessage_unfold Let_def
      onMessageHandle_def aborted_def)

section \<open>C7: regenerating an errored message\<close>

lemma map_msg_id_updateFirst:
  assumes "\<And>x. msg_id (f x) = msg_id x"
  shows "map msg_id (updateFirst P f xs) = map msg_id xs"
  using assms by (induction xs) auto

lemma map_msg_id_deleteFirst:
  "map msg_id (deleteFirst (\<lambda>m. msg_id m = i) xs) = remove1 i (map msg_id xs)"
  by (induction xs) auto

lemma stream_updates_only:
  "\<exists>new. dispatched (snd (snd (stream d a h es (v, s)))) = dispatched s @ new \<and>
         (\<forall>p \<in> set new. \<exists>u. p = UpdateMessage (Some a) u) \<and>
         map msg_id (chats (snd (snd (stream d a h es (v, s))))) = map msg_id (chats s)"
proof (induction es arbitrary: v s)
  case Nil
  show ?case by simp
next
  case (Cons e es)
  show ?case
  proof (cases e)
    case (Chunk t)
    show ?thesis
    proof (rule onMessageHandle_cases[of s h d a t v])
      fix v'
      assume eq: "onMessageHandle d a h t (v, s) =
                   (v', dispatchMessage (UpdateMessage (Some a) (Content (output_v v @ t))) s)"
      let ?p = "UpdateMessage (Some a) (Content (output_v v @ t))"
      from Cons.IH[of v' "dispatchMessage ?p s"] obtain new where
        n: "dispatched (snd (snd (stream d a h es (v', dispatchMessage ?p s)))) =
              dispatched (dispatchMessage ?p s) @ new"
           "\<forall>p \<in> set new. \<exists>u. p = UpdateMessage (Some a) u"
           "map msg_id (chats (snd (snd (stream d a h es (v', dispatchMessage ?p s))))) =
              map msg_id (chats (dispatchMessage ?p s))" by blast
      have "dispatched (snd (snd (stream d a h (e # es) (v, s)))) = dispatched s @ ?p # new"
        using Chunk eq n(1) by simp
      moreover have "\<forall>p \<in> set (?p # new). \<exists>u. p = UpdateMessage (Some a) u"
        using n(2) by simp
      moreover have "map msg_id (chats (snd (snd (stream d a h (e # es) (v, s))))) =
          map msg_id (chats s)"
        using Chunk eq n(3) by (simp add: map_msg_id_updateFirst)
      ultimately show ?thesis by blast
    next
      fix v'
      assume eq: "onMessageHandle d a h t (v, s) = (v', s)"
      with Cons.IH[of v' s] Chunk show ?thesis by simp
    qed
  next
    case (Failure x)
    have "dispatched (snd (snd (stream d a h (e # es) (v, s)))) =
            dispatched s @ [UpdateMessage (Some a) (Error x)]"
      "map msg_id (chats (snd (snd (stream d a h (e # es) (v, s))))) = map msg_id (chats s)"
      using Failure by (simp_all add: onErrorHandle_def map_msg_id_updateFirst)
    then show ?thesis by (intro exI[of _ "[UpdateMessage (Some a) (Error x)]"]) simp
  next
    case Closed
    then show ?thesis by simp
  next
    case Aborted
    with Cons.IH[of v "abort h s"] show ?thesis by simp
  qed
qed

lemma resume_effect:
  "\<exists>new. dispatched (realFetchAIResponse_resume d ms u mid es s) =
           dispatched s @ AddMessage mid (LOADING_FLAT d) Assistant (Some u) # new \<and>
         (\<forall>j. DeleteMessage j \<notin> set new) \<and>
         map msg_id (chats (realFetchAIResponse_resume d ms u mid es s)) =
           map msg_id (chats s) @ [mid]"
proof -
  let ?A = "AddMessage mid (LOADING_FLAT d) Assistant (Some u)"
  let ?X = "UpdateMessageExtra mid ''fromModel'' (model (config s))"
  let ?s2 = "dispatchMessage ?X (dispatchMessage ?A s)"
  let ?s3 = "entered d ms mid ?s2"
  let ?v0 = "\<lparr>output_v = [], isFunctionCall = False\<rparr>"
  let ?es = "if postMessages d (config ?s2) ms = None then [] else es"
  let ?r = "stream d mid (length (signals ?s2)) ?es (?v0, ?s3)"
  obtain new where n: "dispatched (snd (snd ?r)) = dispatched ?s3 @ new"
    "\<forall>p \<in> set new. \<exists>w. p = UpdateMessage (Some mid) w"
    "map msg_id (chats (snd (snd ?r))) = map msg_id (chats ?s3)"
    using stream_updates_only[where d=d and a=mid and h="length (signals ?s2)" and es="?es"
        and v="?v0" and s="?s3"] by blast
  have eq: "realFetchAIResponse_resume d ms u mid es s = snd (generateMessage d ms mid es ?s2)"
    by (simp add: realFetchAIResponse_resume_def Let_def)
  have "dispatched (realFetchAIResponse_resume d ms u mid es s) = dispatched s @ ?A # ?X # new"
    unfolding eq generateMessage_stream_fields using n(1) by simp
  moreover have "\<forall>j. DeleteMessage j \<notin> set (?X # new)" using n(2) by auto
  moreover have "map msg_id (chats (realFetchAIResponse_resume d ms u mid es s)) =
      map msg_id (chats s) @ [mid]"
    unfolding eq generateMessage_stream_fields using n(3) by (simp add: map_msg_id_updateFirst)
  ultimately show ?thesis by blast
qed


lemma regenerate_unfold:
  "onActionsClick d Regenerate i err es s =
     (case resendMessage_args i s of
        None \<Rightarrow> (if err \<noteq> None then deleteMessage i s else s)
      | Some (ctx, latest) \<Rightarrow>
          realFetchAIResponse_resume d ctx latest (fst (getMessageId d ctx latest s)) es
            (if err \<noteq> None then deleteMessage i (snd (getMessageId d ctx latest s))
             else snd (getMessageId d ctx latest s)))"
  by (simp add: onActionsClick_def split: option.splits prod.splits)

lemma regenerate_without_error:
  "onActionsClick d Regenerate i None es s = resendMessage d i es s"
  by (simp add: regenerate_unfold resendMessage_def realFetchAIResponse_def
      split: option.splits prod.splits)

text \<open>
  C7, as amended. The regenerate action of the message list calls \<open>resendMessage\<close> on the
  message and then deletes the message when it holds an error descriptor. With an
  error descriptor, the deletion is the first command dispatched, before the
  placeholder of the retry is added and before the retry generation runs; the ids of
  the chats afterwards are the old ones without the original, followed by the new
  placeholder (if the resend goes on to generate), so the new reply replaces the
  errored one; and the retry issues the same request as \<open>resendMessage\<close> alone, from the
  context computed before the deletion. Without an error descriptor the action is
  \<open>resendMessage\<close>. \<open>resendMessage\<close> itself never dispatches a deletion: it keeps every old id
  and adds the placeholder after them.
\<close>

theorem regenerate_deletes_errored_original:
  "(let tl = (case resendMessage_args i s of
                None \<Rightarrow> []
              | Some (ctx, latest) \<Rightarrow> [fst (getMessageId d ctx latest s)])
    in take 1 (drop (length (dispatched s))
         (dispatched (onActionsClick d Regenerate i (Some e) es s))) = [DeleteMessage i] \<and>
       map msg_id (chats (onActionsClick d Regenerate i (Some e) es s)) =
         remove1 i (map msg_id (chats s)) @ tl \<and>
       (\<forall>j. DeleteMessage j \<notin> set (drop (length (dispatched s))
         (dispatched (onActionsClick d Regenerate i None es s)))) \<and>
       map msg_id (chats (onActionsClick d Regenerate i None es s)) = map msg_id (chats s) @ tl \<and>
       (\<forall>j. DeleteMessage j \<notin> set (drop (length (dispatched s))
         (dispatched (resendMessage d i es s)))) \<and>
       map msg_id (chats (resendMessage d i es s)) = map msg_id (chats s) @ tl) \<and>
   onActionsClick d Regenerate i None es s = resendMessage d i es s \<and>
   requested (onActionsClick d Regenerate i (Some e) es s) =
     requested (resendMessage d i es s) \<and>
   (\<forall>ctx latest. resendMessage_args i s = Some (ctx, latest) \<longrightarrow>
      requested (onActionsClick d Regenerate i (Some e) es s) =
        requested s @
          (case postMessages d (config s) ctx of None \<Rightarrow> [] | Some payload \<Rightarrow> [payload]))"
proof (cases "resendMessage_args i s")
  case None
  then show ?thesis
    by (simp add: regenerate_unfold resendMessage_def deleteMessage_def map_msg_id_deleteFirst)
next
  case (Some a)
  obtain ctx latest where a: "a = (ctx, latest)" by (cases a)
  define mid where "mid = fst (getMessageId d ctx latest s)"
  define s1 where "s1 = snd (getMessageId d ctx latest s)"
  have with_err: "onActionsClick d Regenerate i (Some e) es s =
      realFetchAIResponse_resume d ctx latest mid es (deleteMessage i s1)"
    and without: "onActionsClick d Regenerate i None es s =
      realFetchAIResponse_resume d ctx latest mid es s1"
    using Some a by (simp_all add: regenerate_unfold mid_def s1_def)
  have resend: "resendMessage d i es s = realFetchAIResponse_resume d ctx latest mid es s1"
    using without by (simp add: regenerate_without_error)
  obtain new1 where n1:
    "dispatched (realFetchAIResponse_resume d ctx latest mid es (deleteMessage i s1)) =
       dispatched (deleteMessage i s1) @
         AddMessage mid (LOADING_FLAT d) Assistant (Some latest) # new1"
    "map msg_id (chats (realFetchAIResponse_resume d ctx latest mid es (deleteMessage i s1))) =
       map msg_id (chats (deleteMessage i s1)) @ [mid]"
    using resume_effect[of d ctx latest mid es "deleteMessage i s1"] by blast
  obtain new2 where n2:
    "dispatched (realFetchAIResponse_resume d ctx latest mid es s1) =
       dispatched s1 @ AddMessage mid (LOADING_FLAT d) Assistant (Some latest) # new2"
    "\<forall>j. DeleteMessage j \<notin> set new2"
    "map msg_id (chats (realFetchAIResponse_resume d ctx latest mid es s1)) =
       map msg_id (chats s1) @ [mid]"
    using resume_effect[of d ctx latest mid es s1] by blast
  have s1: "dispatched s1 = dispatched s" "chats s1 = chats s" "requested s1 = requested s"
    "config s1 = config s"
    by (simp_all add: s1_def)
  have req: "requested (onActionsClick d Regenerate i (Some e) es s) =
      requested s @
        (case postMessages d (config s) ctx of None \<Rightarrow> [] | Some payload \<Rightarrow> [payload])"
    unfolding with_err
    by (simp add: realFetchAIResponse_resume_requested deleteMessage_def s1)
  have req2: "requested (resendMessage d i es s) =
      requested s @
        (case postMessages d (config s) ctx of None \<Rightarrow> [] | Some payload \<Rightarrow> [payload])"
    unfolding resend by (simp add: realFetchAIResponse_resume_requested s1)
  have d1: "take 1 (drop (length (dispatched s))
      (dispatched (onActionsClick d Regenerate i (Some e) es s))) = [DeleteMessage i]"
    unfolding with_err n1 by (simp add: deleteMessage_def s1)
  have c1: "map msg_id (chats (onActionsClick d Regenerate i (Some e) es s)) =
      remove1 i (map msg_id (chats s)) @ [mid]"
    unfolding with_err n1 by (simp add: deleteMessage_def s1 map_msg_id_deleteFirst)
  have d2: "\<forall>j. DeleteMessage j \<notin> set (drop (length (dispatched s))
      (dispatched (onActionsClick d Regenerate i None es s)))"
    unfolding without n2 using n2(2) by (simp add: s1)
  have c2: "map msg_id (chats (onActionsClick d Regenerate i None es s)) =
      map msg_id (chats s) @ [mid]"
    unfolding without n2 by (simp add: s1)
  have d3: "\<forall>j. DeleteMessage j \<notin> set (drop (length (dispatched s))
      (dispatched (resendMessage d i es s)))"
    by (rule d2[unfolded regenerate_without_error])
  have c3: "map msg_id (chats (resendMessage d i es s)) = map msg_id (chats s) @ [mid]"
    by (rule c2[unfolded regenerate_without_error])
  have eq: "onActionsClick d Regenerate i None es s = resendMessage d i es s"
    by (rule regenerate_without_error)
  show ?thesis
    using Some a req req2 d1 c1 d2 c2 d3 c3 eq by (simp add: mid_def)
qed

text \<open>
  C7 as stated fails for \<open>resendMessage\<close> itself: resent on its own, the errored reply
  \<^verbatim>\<open>a1\<close> stays in the conversation with its error, next to the new reply, and no deletion
  is dispatched.
\<close>

theorem resend_alone_keeps_errored_original_counterexample:
  "map msg_id (chats errored_store) = [''u1'', ''a1''] \<and>
   map error (chats errored_store) = [None, Some ''boom''] \<and>
   map msg_id (chats (resendMessage demo_deps ''a1'' [Chunk ''Hi'', Closed] errored_store)) =
     [''u1'', ''a1'', ''i''] \<and>
   map error (chats (resendMessage demo_deps ''a1'' [Chunk ''Hi'', Closed] errored_store)) =
     [None, Some ''boom'', None] \<and>
   map content (chats (resendMessage demo_deps ''a1'' [Chunk ''Hi'', Closed] errored_store)) =
     [''hello'', ''Hel'', ''Hi''] \<and>
   dispatched (resendMessage demo_deps ''a1'' [Chunk ''Hi'', Closed] errored_store) =
     [AddMessage ''i'' ''...'' Assistant (Some ''u1''),
      UpdateMessageExtra ''i'' ''fromModel'' ''gpt'',
      UpdateMessage (Some ''i'') (Content ''Hi'')]"
  by (simp add: errored_store_def idle_store_def demo_deps_def resendMessage_def
      resendMessage_args_def currentChats_def contextMessages_def slice0_def
      realFetchAIResponse_def realFetchAIResponse_resume_def getMessageId_def
      generateMessage_unfold postMessages_def onMessageHandle_def aborted_def Let_def)

text \<open>
  An instance: regenerating the failed reply \<^verbatim>\<open>a1\<close> removes it and adds the new
  placeholder; without the error descriptor the old reply stays.
\<close>

theorem regenerate_deletes_errored_original_witness:
  "resendMessage_args ''a1'' errored_store = Some ([chats errored_store ! 0], ''u1'') \<and>
   take 1 (drop (length (dispatched errored_store))
     (dispatched (onActionsClick demo_deps Regenerate ''a1'' (Some ''boom'') [Chunk ''Hi'']
        errored_store))) = [DeleteMessage ''a1''] \<and>
   map msg_id (chats (onActionsClick demo_deps Regenerate ''a1'' (Some ''boom'') [Chunk ''Hi'']
        errored_store)) = [''u1'', ''i''] \<and>
   map msg_id (chats (onActionsClick demo_deps Regenerate ''a1'' None [Chunk ''Hi'']
        errored_store)) = [''u1'', ''a1'', ''i'']"
  using regenerate_deletes_errored_original[where i="''a1''" and s=errored_store and d=demo_deps
      and e="''boom''" and es="[Chunk ''Hi'']"]
  by (simp add: errored_store_def idle_store_def demo_deps_def resendMessage_args_def
      currentChats_def contextMessages_def slice0_def getMessageId_def Let_def)

end
